theory Spec2Isabelle
  imports Main "HOL-Library.Word"
begin

section \<open>JavaScript strings and cell values\<close>

text \<open>
  A JavaScript string is a sequence of UTF-16 code units. ASCII literals of the source are
  written through \<open>js\<close>, which maps each character to its code unit.
\<close>

type_synonym jschar = "16 word"
type_synonym jsstring = "jschar list"

definition js :: "string \<Rightarrow> jsstring" where
  "js s = map (\<lambda>c. word_of_nat (of_char c)) s"

text \<open>
  The code units that \<open>String.prototype.trim\<close> strips: ECMAScript WhiteSpace (TAB, VT, FF,
  SP, NBSP, ZWNBSP and the Unicode space separators) and LineTerminator (LF, CR, LS, PS).
\<close>

definition isWhiteSpace :: "jschar \<Rightarrow> bool" where
  "isWhiteSpace c \<longleftrightarrow> c \<in> set [0x0009, 0x000A, 0x000B, 0x000C, 0x000D, 0x0020, 0x00A0,
     0x1680, 0x2000, 0x2001, 0x2002, 0x2003, 0x2004, 0x2005, 0x2006, 0x2007, 0x2008,
     0x2009, 0x200A, 0x2028, 0x2029, 0x202F, 0x205F, 0x3000, 0xFEFF]"

definition trimStart :: "jsstring \<Rightarrow> jsstring" where
  "trimStart s = dropWhile isWhiteSpace s"

definition trimEnd :: "jsstring \<Rightarrow> jsstring" where
  "trimEnd s = rev (dropWhile isWhiteSpace (rev s))"

definition trim :: "jsstring \<Rightarrow> jsstring" where
  "trim s = trimEnd (trimStart s)"

text \<open>\<open>s.endsWith(suf)\<close>: false when \<open>suf\<close> is longer than \<open>s\<close>, else compares the tail.\<close>

definition endsWith :: "jsstring \<Rightarrow> jsstring \<Rightarrow> bool" where
  "endsWith s suf \<longleftrightarrow> length suf \<le> length s \<and> drop (length s - length suf) s = suf"

text \<open>
  \<open>s.slice(0, -k)\<close>: the end index is \<open>max (length s - k) 0\<close>, which is what truncating
  subtraction on \<open>nat\<close> computes.
\<close>

definition slice_to_neg :: "jsstring \<Rightarrow> nat \<Rightarrow> jsstring" where
  "slice_to_neg s k = take (length s - k) s"

text \<open>
  \<open>s.replaceAll(pat, rep)\<close> for a search string of one code unit, the only form the
  source uses: every occurrence of the unit is replaced, left to right.
\<close>

definition replaceAll :: "jsstring \<Rightarrow> jschar \<Rightarrow> jsstring \<Rightarrow> jsstring" where
  "replaceAll s c rep = concat (map (\<lambda>x. if x = c then rep else [x]) s)"

abbreviation COMMA :: jschar where "COMMA \<equiv> 0x2C"
abbreviation SPACE :: jschar where "SPACE \<equiv> 0x20"

text \<open>
  Cell values as the table reader produces them: strings, numbers and booleans; \<open>null\<close> and
  \<open>undefined\<close> are what the normalizers guard against, and \<open>undefined\<close> is what reading an
  absent key yields. The type \<open>'n\<close> of numbers is left open: the primitives of JavaScript
  numbers that the program calls (number to string, string to number, the falsy tests,
  zero and addition) are taken as a parameter, so that every theorem holds for any
  implementation of them, IEEE doubles included.
\<close>

datatype 'n jsval = JNull | JUndefined | JStr jsstring | JNum 'n | JBool bool

record 'n number_ops =
  num_toString :: "'n \<Rightarrow> jsstring"
  num_ofString :: "jsstring \<Rightarrow> 'n"
  num_isNaN :: "'n \<Rightarrow> bool"
  num_isZero :: "'n \<Rightarrow> bool"
  num_zero :: "'n"
  num_add :: "'n \<Rightarrow> 'n \<Rightarrow> 'n"

text \<open>\<open>String(x)\<close>.\<close>

fun toString :: "'n number_ops \<Rightarrow> 'n jsval \<Rightarrow> jsstring" where
  "toString ops JNull = js ''null''"
| "toString ops JUndefined = js ''undefined''"
| "toString ops (JStr s) = s"
| "toString ops (JNum n) = num_toString ops n"
| "toString ops (JBool b) = (if b then js ''true'' else js ''false'')"

section \<open>Normalizer\<close>

fun normalizeTicket :: "'n number_ops \<Rightarrow> 'n jsval \<Rightarrow> jsstring" where
  "normalizeTicket ops JNull = []"
| "normalizeTicket ops JUndefined = []"
| "normalizeTicket ops x =
     (let s = trim (toString ops x);
          s = (if endsWith s (js ''.0'') then slice_to_neg s 2 else s)
      in replaceAll (replaceAll s COMMA []) SPACE [])"

fun normalizeInvoice :: "'n number_ops \<Rightarrow> 'n jsval \<Rightarrow> jsstring" where
  "normalizeInvoice ops JNull = []"
| "normalizeInvoice ops JUndefined = []"
| "normalizeInvoice ops x =
     (let s = trim (toString ops x);
          s = (if endsWith s (js ''.0'') then slice_to_neg s 2 else s)
      in replaceAll (replaceAll s COMMA []) SPACE [])"

text \<open>
  The contract of the normalizers as the specification words it: convert to a string, trim
  whitespace, drop a final \<open>.0\<close>, then remove every comma and every space.
\<close>

definition normalize_spec :: "'n number_ops \<Rightarrow> 'n jsval \<Rightarrow> jsstring" where
  "normalize_spec ops x =
     (case x of
        JNull \<Rightarrow> []
      | JUndefined \<Rightarrow> []
      | _ \<Rightarrow>
          (let converted = toString ops x;
               trimmed = trim converted;
               stripped =
                 (if 2 \<le> length trimmed \<and> last (butlast trimmed) = 0x2E \<and> last trimmed = 0x30
                  then butlast (butlast trimmed) else trimmed)
           in filter (\<lambda>c. c \<noteq> COMMA \<and> c \<noteq> SPACE) stripped))"

text \<open>\<open>s.split(sep)\<close> for a separator of one code unit: a left-to-right scan that closes the
  current piece at every separator; the empty string gives one empty piece.\<close>

fun splitFrom :: "jsstring \<Rightarrow> jsstring \<Rightarrow> jschar \<Rightarrow> jsstring list" where
  "splitFrom cur [] c = [cur]"
| "splitFrom cur (x # xs) c =
     (if x = c then cur # splitFrom [] xs c else splitFrom (cur @ [x]) xs c)"

definition split :: "jsstring \<Rightarrow> jschar \<Rightarrow> jsstring list" where
  "split s c = splitFrom [] s c"

text \<open>\<open>filter(Boolean)\<close> on strings keeps the nonempty ones.\<close>

fun splitAxonTickets :: "'n number_ops \<Rightarrow> 'n jsval \<Rightarrow> jsstring list" where
  "splitAxonTickets ops JNull = []"
| "splitAxonTickets ops JUndefined = []"
| "splitAxonTickets ops cell =
     (let s = trim (toString ops cell)
      in if s = [] then []
         else filter (\<lambda>p. p \<noteq> []) (map trim (split s COMMA)))"

section \<open>Rows, sheets and the browser side\<close>

text \<open>
  A row is an ordered mapping from column name to cell value. \<open>c in r\<close> is \<open>hasKey\<close>;
  \<open>r[c]\<close> is \<open>getv\<close>, which yields \<open>undefined\<close> for an absent key.
\<close>

type_synonym 'n row = "(jsstring \<times> 'n jsval) list"

definition hasKey :: "jsstring \<Rightarrow> 'n row \<Rightarrow> bool" where
  "hasKey c r \<longleftrightarrow> c \<in> set (map fst r)"

definition getv :: "'n row \<Rightarrow> jsstring \<Rightarrow> 'n jsval" where
  "getv r c = (case map_of r c of None \<Rightarrow> JUndefined | Some v \<Rightarrow> v)"

record 'n status_row =
  Invoice_no :: "'n jsval"
  Tickets :: "'n jsval"
  Date :: "'n jsval"
  Name :: "'n jsval"
  Balance_Due :: "'n jsval"
  Status :: jsstring

record summary_row =
  Metric :: jsstring
  Value :: nat

record 'n remit_row =
  Reference :: "'n jsval"
  Net_Amount :: "'n jsval"
  Customer :: jsstring
  PioneerNaturalResources :: "'n jsval"
  XTO_column :: "'n jsval"

datatype 'n sheet =
  SummaryRows "summary_row list"
| StatusRows "'n status_row list"
| RemitRows "'n remit_row list"

text \<open>A written workbook: its named sheets in order, and the file name.\<close>

type_synonym 'n workbook = "(jsstring \<times> 'n sheet) list \<times> jsstring"

text \<open>
  What a run can change outside itself: the text of its status line and the files whose
  download it has started.
\<close>

record 'n ui =
  logText :: jsstring
  downloads :: "'n workbook list"

datatype error = Error jsstring

definition log :: "jsstring \<Rightarrow> 'n ui \<Rightarrow> 'n ui" where
  "log msg st = st\<lparr>logText := msg\<rparr>"

definition downloadWorkbook :: "(jsstring \<times> 'n sheet) list \<Rightarrow> jsstring \<Rightarrow> 'n ui \<Rightarrow> 'n ui" where
  "downloadWorkbook shs fname st = st\<lparr>downloads := downloads st @ [(shs, fname)]\<rparr>"

text \<open>\<open>!rows.length || !(c in rows[0])\<close>; the first row is read only when there is one.\<close>

definition lacksColumn :: "'n row list \<Rightarrow> jsstring \<Rightarrow> bool" where
  "lacksColumn rows c \<longleftrightarrow> (case rows of [] \<Rightarrow> True | r # _ \<Rightarrow> \<not> hasKey c r)"

text \<open>The loop over the required columns, which throws at the first one that is missing.\<close>

fun firstMissing :: "'n row list \<Rightarrow> jsstring list \<Rightarrow> jsstring option" where
  "firstMissing rows [] = None"
| "firstMissing rows (c # cs) = (if lacksColumn rows c then Some c else firstMissing rows cs)"

definition msgReading :: jsstring where
  "msgReading = js ''Reading files'' @ [0x2026]"

definition msgGenerating :: jsstring where
  "msgGenerating = js ''Generating Excel'' @ [0x2026]"

definition msgDone :: jsstring where
  "msgDone = js ''Done '' @ [0x2705] @ js '' Download started.''"

section \<open>Approved tool\<close>

definition oiSet :: "'n number_ops \<Rightarrow> 'n row list \<Rightarrow> jsstring set" where
  "oiSet ops oiRows =
     set (filter (\<lambda>t. t \<noteq> []) (map (\<lambda>r. normalizeTicket ops (getv r (js ''Ticket''))) oiRows))"

text \<open>The two counts of one AXON row: how many nonempty normalized tickets its \<open>Tickets\<close>
  cell holds, and how many of them are in the set of open tickets.\<close>

definition approvedCounts :: "'n number_ops \<Rightarrow> jsstring set \<Rightarrow> 'n jsval \<Rightarrow> nat \<times> nat" where
  "approvedCounts ops oi cell =
     (let ticketList = splitAxonTickets ops cell;
          normalized = filter (\<lambda>t. t \<noteq> []) (map (\<lambda>t. normalizeTicket ops (JStr t)) ticketList);
          total = length normalized;
          matched = length (filter (\<lambda>t. t \<in> oi) normalized)
      in (total, matched))"

definition approvedRow :: "'n number_ops \<Rightarrow> jsstring set \<Rightarrow> 'n row \<Rightarrow> 'n status_row" where
  "approvedRow ops oi r =
     (let (total, matched) = approvedCounts ops oi (getv r (js ''Tickets''));
          status =
            (if total > 0 \<and> matched = total then js ''Ready to Flip''
             else if total > 0 \<and> matched > 0 then js ''Pending''
             else js ''Not Ready'')
      in \<lparr>Invoice_no = getv r (js ''Invoice#''),
          Tickets = getv r (js ''Tickets''),
          Date = getv r (js ''Date''),
          Name = getv r (js ''Name''),
          Balance_Due = getv r (js ''Balance Due''),
          Status = status\<rparr>)"

definition approvedSummary :: "'n status_row list \<Rightarrow> summary_row list" where
  "approvedSummary out =
     [\<lparr>Metric = js ''Invoices (AXON rows)'', Value = length out\<rparr>,
      \<lparr>Metric = js ''Ready to Flip'',
       Value = length (filter (\<lambda>r. Status r = js ''Ready to Flip'') out)\<rparr>,
      \<lparr>Metric = js ''Pending'', Value = length (filter (\<lambda>r. Status r = js ''Pending'') out)\<rparr>,
      \<lparr>Metric = js ''Not Ready'',
       Value = length (filter (\<lambda>r. Status r = js ''Not Ready'') out)\<rparr>]"

text \<open>
  \<open>runApproved\<close> on the rows the table reader returned for the two files. The result is
  the error thrown, if any, and the state of the browser side when the run ends.
\<close>

definition runApproved ::
  "'n number_ops \<Rightarrow> 'n row list \<Rightarrow> 'n row list \<Rightarrow> 'n ui \<Rightarrow> error option \<times> 'n ui" where
  "runApproved ops axonRows oiRows st0 =
     (let st1 = log msgReading st0;
          requiredAxon = [js ''Invoice#'', js ''Tickets'', js ''Date'', js ''Name'', js ''Balance Due'']
      in case firstMissing axonRows requiredAxon of
           Some c \<Rightarrow> (Some (Error (js ''AXON missing column: '' @ c)), st1)
         | None \<Rightarrow>
             if lacksColumn oiRows (js ''Ticket'')
             then (Some (Error (js ''OpenInvoice missing column: Ticket'')), st1)
             else
               (let oi = oiSet ops oiRows;
                    out = map (approvedRow ops oi) axonRows;
                    summary = approvedSummary out;
                    st2 = log msgGenerating st1;
                    st3 = downloadWorkbook
                            [(js ''Summary'', SummaryRows summary),
                             (js ''Invoice Status'', StatusRows out)]
                            (js ''approved_invoice_status.xlsx'') st2
                in (None, log msgDone st3)))"

text \<open>
  The text of a cell that holds the pieces \<open>ps\<close> separated by commas (\<open>ps.join(",")\<close>).
  Every string is such a text, of its pieces between the commas.
\<close>

fun joinComma :: "jsstring list \<Rightarrow> jsstring" where
  "joinComma [] = []"
| "joinComma [p] = p"
| "joinComma (p # q # ps) = p @ COMMA # joinComma (q # ps)"

text \<open>
  The inputs that pass validation, as the specification words it: the AXON table has a
  first row with the five required columns, and the OpenInvoice table has a first row with
  \<open>Ticket\<close>.
\<close>

definition approvedValid :: "'n row list \<Rightarrow> 'n row list \<Rightarrow> bool" where
  "approvedValid axonRows oiRows \<longleftrightarrow>
     axonRows \<noteq> [] \<and> oiRows \<noteq> [] \<and>
     hasKey (js ''Invoice#'') (hd axonRows) \<and> hasKey (js ''Tickets'') (hd axonRows) \<and>
     hasKey (js ''Date'') (hd axonRows) \<and> hasKey (js ''Name'') (hd axonRows) \<and>
     hasKey (js ''Balance Due'') (hd axonRows) \<and> hasKey (js ''Ticket'') (hd oiRows)"

section \<open>Remittance tool\<close>

definition PIONEER :: jsstring where
  "PIONEER = js ''Pioneer Natural Resources''"

definition XTO :: jsstring where
  "XTO = js ''XTO Energy''"

definition NOT_FOUND :: jsstring where
  "NOT_FOUND = js ''NOT FOUND IN AXON''"

text \<open>\<open>new Map(pairs)\<close>: the entries are set in order, so a later pair replaces an earlier
  one with the same key.\<close>

definition newMap :: "(jsstring \<times> jsstring) list \<Rightarrow> (jsstring \<rightharpoonup> jsstring)" where
  "newMap ps = foldl (\<lambda>m (k, v). m(k \<mapsto> v)) Map.empty ps"

definition invToCustomer :: "'n number_ops \<Rightarrow> 'n row list \<Rightarrow> (jsstring \<rightharpoonup> jsstring)" where
  "invToCustomer ops axonRows =
     newMap (filter (\<lambda>(k, v). k \<noteq> [])
       (map (\<lambda>r. (normalizeInvoice ops (getv r (js ''Invoice#'')),
                   trim (toString ops (getv r (js ''Name''))))) axonRows))"

text \<open>ToBoolean on a number: false exactly for NaN and the zeros.\<close>

definition truthyNum :: "'n number_ops \<Rightarrow> 'n \<Rightarrow> bool" where
  "truthyNum ops n \<longleftrightarrow> \<not> num_isNaN ops n \<and> \<not> num_isZero ops n"

text \<open>\<open>Number(String(v).replaceAll(",", "")) || 0\<close>.\<close>

definition netAmount :: "'n number_ops \<Rightarrow> 'n jsval \<Rightarrow> 'n" where
  "netAmount ops v =
     (let n = num_ofString ops (replaceAll (toString ops v) COMMA [])
      in if truthyNum ops n then n else num_zero ops)"

text \<open>\<open>m.get(inv) || "NOT FOUND IN AXON"\<close>: the default is taken when the key is absent and
  when the stored name is the empty string, which is falsy.\<close>

definition customerOf :: "(jsstring \<rightharpoonup> jsstring) \<Rightarrow> jsstring \<Rightarrow> jsstring" where
  "customerOf m k =
     (case m k of None \<Rightarrow> NOT_FOUND | Some name \<Rightarrow> if name = [] then NOT_FOUND else name)"

text \<open>The loop over the remittance rows, with its three mutable variables as accumulators.\<close>

fun remitLoop ::
  "'n number_ops \<Rightarrow> (jsstring \<rightharpoonup> jsstring) \<Rightarrow> 'n row list \<Rightarrow>
   'n remit_row list \<times> 'n \<times> 'n \<Rightarrow> 'n remit_row list \<times> 'n \<times> 'n" where
  "remitLoop ops m [] acc = acc"
| "remitLoop ops m (r # rs) (out, pioneerTotal, xtoTotal) =
     (let refRaw = (if hasKey (js ''Reference'') r then getv r (js ''Reference'')
                    else getv r (js ''Reference/Text''));
          inv = normalizeInvoice ops refRaw;
          amt = netAmount ops (getv r (js ''Net Amount''));
          customer = customerOf m inv;
          pioneer = (if customer = PIONEER then JNum amt else JStr []);
          xto = (if customer = XTO then JNum amt else JStr []);
          pioneerTotal' = (if customer = PIONEER then num_add ops pioneerTotal amt else pioneerTotal);
          xtoTotal' = (if customer = XTO then num_add ops xtoTotal amt else xtoTotal)
      in remitLoop ops m rs
           (out @ [\<lparr>Reference = JStr inv, Net_Amount = JNum amt, Customer = customer,
                     PioneerNaturalResources = pioneer, XTO_column = xto\<rparr>],
            pioneerTotal', xtoTotal'))"

definition runRemit ::
  "'n number_ops \<Rightarrow> 'n row list \<Rightarrow> 'n row list \<Rightarrow> 'n ui \<Rightarrow> error option \<times> 'n ui" where
  "runRemit ops axonRows remRows st0 =
     (let st1 = log msgReading st0;
          requiredAxon = [js ''Invoice#'', js ''Name''];
          hasReference =
            (case remRows of
               [] \<Rightarrow> False
             | r # _ \<Rightarrow> hasKey (js ''Reference'') r \<or> hasKey (js ''Reference/Text'') r)
      in case firstMissing axonRows requiredAxon of
           Some c \<Rightarrow> (Some (Error (js ''AXON missing column: '' @ c)), st1)
         | None \<Rightarrow>
             if \<not> hasReference
             then (Some (Error (js ''Remittance missing column: Reference (or Reference/Text)'')), st1)
             else if lacksColumn remRows (js ''Net Amount'')
             then (Some (Error (js ''Remittance missing column: Net Amount'')), st1)
             else
               (case remitLoop ops (invToCustomer ops axonRows) remRows
                       ([], num_zero ops, num_zero ops) of
                  (rows, pioneerTotal, xtoTotal) \<Rightarrow>
                    (let out = rows @ [\<lparr>Reference = JStr [], Net_Amount = JStr [],
                                        Customer = js ''TOTAL'',
                                        PioneerNaturalResources = JNum pioneerTotal,
                                        XTO_column = JNum xtoTotal\<rparr>];
                         notFound = filter (\<lambda>r. Customer r = NOT_FOUND) out;
                         st2 = log msgGenerating st1;
                         st3 = downloadWorkbook
                                 [(js ''Customer Breakdown'', RemitRows out),
                                  (js ''Not Found in AXON'', RemitRows notFound)]
                                 (js ''remittance_breakdown.xlsx'') st2
                     in (None, log msgDone st3))))"

text \<open>The row that one turn of the loop pushes for the remittance row \<open>r\<close>.\<close>

definition remitRow :: "'n number_ops \<Rightarrow> (jsstring \<rightharpoonup> jsstring) \<Rightarrow> 'n row \<Rightarrow> 'n remit_row" where
  "remitRow ops m r =
     (let refRaw = (if hasKey (js ''Reference'') r then getv r (js ''Reference'')
                    else getv r (js ''Reference/Text''));
          amt = netAmount ops (getv r (js ''Net Amount''));
          customer = customerOf m (normalizeInvoice ops refRaw)
      in \<lparr>Reference = JStr (normalizeInvoice ops refRaw), Net_Amount = JNum amt,
          Customer = customer,
          PioneerNaturalResources = (if customer = PIONEER then JNum amt else JStr []),
          XTO_column = (if customer = XTO then JNum amt else JStr [])\<rparr>)"

text \<open>
  The inputs that pass validation: the AXON table has a first row with \<open>Invoice#\<close> and
  \<open>Name\<close>, the remittance table has a first row with \<open>Reference\<close> or \<open>Reference/Text\<close>,
  and with \<open>Net Amount\<close>.
\<close>

definition remitValid :: "'n row list \<Rightarrow> 'n row list \<Rightarrow> bool" where
  "remitValid axonRows remRows \<longleftrightarrow>
     axonRows \<noteq> [] \<and> remRows \<noteq> [] \<and>
     hasKey (js ''Invoice#'') (hd axonRows) \<and> hasKey (js ''Name'') (hd axonRows) \<and>
     (hasKey (js ''Reference'') (hd remRows) \<or> hasKey (js ''Reference/Text'') (hd remRows)) \<and>
     hasKey (js ''Net Amount'') (hd remRows)"

text \<open>
  The sum of a bucket column, in row order and with the program's addition. \<open>numbersOf\<close>
  keeps the cells that hold a number; \<open>columnSum\<close> counts every other cell (the empty
  string of a row outside the bucket) as zero.
\<close>

fun numbersOf :: "'n jsval list \<Rightarrow> 'n list" where
  "numbersOf [] = []"
| "numbersOf (JNum a # vs) = a # numbersOf vs"
| "numbersOf (_ # vs) = numbersOf vs"

definition cellOrZero :: "'n number_ops \<Rightarrow> 'n jsval \<Rightarrow> 'n" where
  "cellOrZero ops v = (case v of JNum a \<Rightarrow> a | _ \<Rightarrow> num_zero ops)"

definition columnSum :: "'n number_ops \<Rightarrow> 'n jsval list \<Rightarrow> 'n" where
  "columnSum ops vs = foldl (num_add ops) (num_zero ops) (map (cellOrZero ops) vs)"

section \<open>An instance of the number primitives\<close>

text \<open>
  Natural numbers written in decimal, with \<open>None\<close> for NaN: an implementation of the number
  primitives that is small enough to run the tools on concrete tables. The theorems below
  are about every implementation; this one only supplies the concrete runs.
\<close>

fun digitsOf :: "nat \<Rightarrow> jsstring" where
  "digitsOf n =
     (if n < 10 then [word_of_nat (48 + n)]
      else digitsOf (n div 10) @ [word_of_nat (48 + n mod 10)])"

declare digitsOf.simps [simp del]

fun parseDigits :: "nat \<Rightarrow> jsstring \<Rightarrow> nat option" where
  "parseDigits acc [] = Some acc"
| "parseDigits acc (c # cs) =
     (if 0x30 \<le> c \<and> c \<le> 0x39 then parseDigits (10 * acc + (unat c - 48)) cs else None)"

definition decOfString :: "jsstring \<Rightarrow> nat option" where
  "decOfString s = (let t = trim s in if t = [] then Some 0 else parseDigits 0 t)"

definition decimalOps :: "nat option number_ops" where
  "decimalOps =
     \<lparr>num_toString = (\<lambda>n. case n of None \<Rightarrow> js ''NaN'' | Some k \<Rightarrow> digitsOf k),
      num_ofString = decOfString,
      num_isNaN = (\<lambda>n. n = None),
      num_isZero = (\<lambda>n. n = Some 0),
      num_zero = Some 0,
      num_add = (\<lambda>a b. case a of None \<Rightarrow> None
                        | Some x \<Rightarrow> (case b of None \<Rightarrow> None | Some y \<Rightarrow> Some (x + y)))\<rparr>"

section \<open>Concrete tables\<close>

text \<open>Rows of the three kinds of table, with string cells, for the concrete runs.\<close>

definition axonRow :: "string \<Rightarrow> string \<Rightarrow> string \<Rightarrow> nat option row" where
  "axonRow i tickets customer =
     [(js ''Invoice#'', JStr (js i)), (js ''Tickets'', JStr (js tickets)),
      (js ''Date'', JStr (js ''2024-01-31'')), (js ''Name'', JStr (js customer)),
      (js ''Balance Due'', JStr (js ''10''))]"

definition oiRow :: "string \<Rightarrow> nat option row" where
  "oiRow t = [(js ''Ticket'', JStr (js t))]"

definition remRow :: "string \<Rightarrow> string \<Rightarrow> nat option row" where
  "remRow ref amt = [(js ''Reference'', JStr (js ref)), (js ''Net Amount'', JStr (js amt))]"

definition emptyUi :: "nat option ui" where
  "emptyUi = \<lparr>logText = [], downloads = []\<rparr>"

section \<open>Facts about the string primitives\<close>

lemmas str_defs = js_def trim_def trimStart_def trimEnd_def isWhiteSpace_def endsWith_def
  slice_to_neg_def replaceAll_def

lemma replaceAll_empty: "replaceAll s c [] = filter (\<lambda>x. x \<noteq> c) s"
  by (induction s) (simp_all add: replaceAll_def)

lemma remove_commas_spaces:
  "replaceAll (replaceAll s COMMA []) SPACE [] = filter (\<lambda>c. c \<noteq> COMMA \<and> c \<noteq> SPACE) s"
  by (simp add: replaceAll_empty conj_commute)

lemma endsWith_append: "endsWith s suf \<longleftrightarrow> (\<exists>r. s = r @ suf)"
proof
  assume h: "endsWith s suf"
  then have "s = take (length s - length suf) s @ suf"
    by (metis append_take_drop_id endsWith_def)
  then show "\<exists>r. s = r @ suf" ..
next
  assume "\<exists>r. s = r @ suf"
  then show "endsWith s suf" by (auto simp: endsWith_def)
qed

lemma dot_zero: "js ''.0'' = [0x2E, 0x30]"
  by (simp add: js_def)

lemma endsWith_dot_zero:
  "endsWith s (js ''.0'') \<longleftrightarrow> 2 \<le> length s \<and> last (butlast s) = 0x2E \<and> last s = 0x30"
proof (cases s rule: rev_cases)
  case Nil
  then show ?thesis by (simp add: endsWith_def dot_zero)
next
  case (snoc t b)
  note outer = snoc
  show ?thesis
  proof (cases t rule: rev_cases)
    case Nil
    with outer show ?thesis by (simp add: endsWith_def dot_zero)
  next
    case (snoc u a)
    have "butlast (u @ [a, b]) = u @ [a]" by (simp add: butlast_append)
    with snoc outer show ?thesis by (auto simp: endsWith_append dot_zero)
  qed
qed

lemma slice_two: "slice_to_neg s 2 = butlast (butlast s)"
  by (simp add: slice_to_neg_def butlast_conv_take numeral_2_eq_2)

lemma normalizeInvoice_eq: "normalizeInvoice ops x = normalizeTicket ops x"
  by (cases x) simp_all

lemma set_trim: "set (trim s) \<subseteq> set s"
proof -
  have "set (trim s) \<subseteq> set (dropWhile isWhiteSpace s)"
    unfolding trim_def trimEnd_def trimStart_def
    by (metis set_rev subsetI set_dropWhileD)
  also have "\<dots> \<subseteq> set s" by (auto dest: set_dropWhileD)
  finally show ?thesis .
qed

lemma length_trim: "length (trim s) \<le> length s"
  unfolding trim_def trimEnd_def trimStart_def
  by (metis length_dropWhile_le length_rev le_trans)

lemma normalizeTicket_clean:
  "COMMA \<notin> set (normalizeTicket ops x) \<and> SPACE \<notin> set (normalizeTicket ops x)"
  by (cases x) (simp_all add: remove_commas_spaces Let_def)

lemma filter_id_subset:
  "set t \<subseteq> set y \<Longrightarrow> COMMA \<notin> set y \<Longrightarrow> SPACE \<notin> set y \<Longrightarrow>
   filter (\<lambda>c. c \<noteq> COMMA \<and> c \<noteq> SPACE) t = t"
  by (rule filter_True) auto

lemma set_slice: "set (slice_to_neg s k) \<subseteq> set s"
  by (auto simp: slice_to_neg_def dest: in_set_takeD)

lemma normalize_clean_string:
  assumes "COMMA \<notin> set y" "SPACE \<notin> set y"
  shows "normalizeTicket ops (JStr y) =
    (if endsWith (trim y) (js ''.0'') then slice_to_neg (trim y) 2 else trim y)"
proof -
  have "set (slice_to_neg (trim y) 2) \<subseteq> set y"
    using set_slice set_trim by (rule subset_trans)
  with assms set_trim [of y] show ?thesis
    by (simp add: remove_commas_spaces Let_def filter_id_subset)
qed

lemma twice_iff:
  assumes "COMMA \<notin> set y" "SPACE \<notin> set y"
  shows "normalizeTicket ops (JStr y) = y \<longleftrightarrow> trim y = y \<and> \<not> endsWith y (js ''.0'')"
proof
  assume "trim y = y \<and> \<not> endsWith y (js ''.0'')"
  then show "normalizeTicket ops (JStr y) = y"
    by (simp add: normalize_clean_string [OF assms] del: normalizeTicket.simps)
next
  assume h: "normalizeTicket ops (JStr y) = y"
  show "trim y = y \<and> \<not> endsWith y (js ''.0'')"
  proof (cases "endsWith (trim y) (js ''.0'')")
    case True
    then have "2 \<le> length (trim y)" by (simp add: endsWith_dot_zero)
    then have "length (slice_to_neg (trim y) 2) < length (trim y)"
      by (simp add: slice_to_neg_def)
    moreover from True h have "slice_to_neg (trim y) 2 = y"
      by (simp add: normalize_clean_string [OF assms] del: normalizeTicket.simps)
    ultimately have "length y < length (trim y)" by simp
    with length_trim [of y] show ?thesis by simp
  next
    case False
    with h have "trim y = y"
      by (simp add: normalize_clean_string [OF assms] del: normalizeTicket.simps)
    with False show ?thesis by simp
  qed
qed

lemma not_ws_dot_zero: "\<not> isWhiteSpace 0x2E" "\<not> isWhiteSpace 0x30"
  by (simp_all add: isWhiteSpace_def)

lemma trim_dot_zero: "trim (r @ [0x2E, 0x30]) = trimStart r @ [0x2E, 0x30]"
  by (simp add: trim_def trimStart_def trimEnd_def dropWhile_append not_ws_dot_zero)

lemma normalize_dot_zero:
  assumes "toString ops x = r @ [0x2E, 0x30]"
  shows "normalizeTicket ops x = filter (\<lambda>c. c \<noteq> COMMA \<and> c \<noteq> SPACE) (trimStart r)"
proof -
  have e: "endsWith (trimStart r @ [0x2E, 0x30]) (js ''.0'')"
    by (auto simp: endsWith_append dot_zero)
  have s: "slice_to_neg (trimStart r @ [0x2E, 0x30]) 2 = trimStart r"
    by (simp add: slice_to_neg_def)
  from assms have "x \<noteq> JNull" "x \<noteq> JUndefined" by (auto simp: js_def)
  then show ?thesis
    using assms e s by (cases x) (simp_all add: trim_dot_zero remove_commas_spaces Let_def)
qed

section \<open>Facts about the approved tool\<close>

lemmas run_defs = axonRow_def oiRow_def remRow_def emptyUi_def hasKey_def getv_def split_def
  lacksColumn_def log_def downloadWorkbook_def

lemma lacksColumn_hd: "lacksColumn rows c \<longleftrightarrow> rows = [] \<or> \<not> hasKey c (hd rows)"
  by (cases rows) (simp_all add: lacksColumn_def)

lemma firstMissing_None: "firstMissing rows cs = None \<longleftrightarrow> (\<forall>c\<in>set cs. \<not> lacksColumn rows c)"
  by (induction cs) simp_all

lemma firstMissing_Some: "firstMissing rows cs = Some c \<Longrightarrow> c \<in> set cs \<and> lacksColumn rows c"
  by (induction cs) (auto split: if_splits)

lemma lacksColumn_take: "lacksColumn (take (Suc 0) rows) c = lacksColumn rows c"
  by (cases rows) (simp_all add: lacksColumn_def)

lemma firstMissing_take: "firstMissing (take (Suc 0) rows) cs = firstMissing rows cs"
  by (induction cs) (simp_all add: lacksColumn_take)

lemma runApproved_valid:
  assumes "approvedValid axonRows oiRows"
  shows "runApproved ops axonRows oiRows st =
    (None, st\<lparr>logText := msgDone, downloads := downloads st @
       [([(js ''Summary'',
           SummaryRows (approvedSummary (map (approvedRow ops (oiSet ops oiRows)) axonRows))),
          (js ''Invoice Status'',
           StatusRows (map (approvedRow ops (oiSet ops oiRows)) axonRows))],
         js ''approved_invoice_status.xlsx'')]\<rparr>)"
proof -
  from assms have
    "firstMissing axonRows
       [js ''Invoice#'', js ''Tickets'', js ''Date'', js ''Name'', js ''Balance Due''] = None"
    by (simp add: firstMissing_None lacksColumn_hd approvedValid_def)
  moreover from assms have "\<not> lacksColumn oiRows (js ''Ticket'')"
    by (simp add: lacksColumn_hd approvedValid_def)
  ultimately show ?thesis
    by (simp add: runApproved_def Let_def log_def downloadWorkbook_def)
qed

lemma oiSet_iff:
  "t \<in> oiSet ops oiRows \<longleftrightarrow>
     t \<noteq> [] \<and> (\<exists>r\<in>set oiRows. normalizeTicket ops (getv r (js ''Ticket'')) = t)"
  by (auto simp: oiSet_def)

lemma oiSet_pred:
  "(\<lambda>t. t \<in> oiSet ops oiRows) =
   (\<lambda>t. t \<noteq> [] \<and> (\<exists>r\<in>set oiRows. normalizeTicket ops (getv r (js ''Ticket'')) = t))"
  by (simp add: oiSet_iff fun_eq_iff)

lemma approvedRow_Status:
  "Status (approvedRow ops (oiSet ops oiRows) r) =
     (let tokens = filter (\<lambda>t. t \<noteq> [])
            (map (\<lambda>t. normalizeTicket ops (JStr t))
               (splitAxonTickets ops (getv r (js ''Tickets''))));
          total = length tokens;
          matched = length (filter (\<lambda>t. t \<noteq> [] \<and>
             (\<exists>r\<in>set oiRows. normalizeTicket ops (getv r (js ''Ticket'')) = t)) tokens)
      in if total > 0 \<and> matched = total then js ''Ready to Flip''
         else if total > 0 \<and> matched > 0 then js ''Pending''
         else js ''Not Ready'')"
  unfolding approvedRow_def approvedCounts_def oiSet_pred Let_def prod.case
  by (simp only: status_row.select_convs)

lemma status_distinct:
  "js ''Ready to Flip'' \<noteq> js ''Pending''" "js ''Ready to Flip'' \<noteq> js ''Not Ready''"
  "js ''Pending'' \<noteq> js ''Not Ready''"
  by (simp_all add: js_def)

lemma approvedRow_three:
  "Status (approvedRow ops oi r) = js ''Ready to Flip'' \<or>
   Status (approvedRow ops oi r) = js ''Pending'' \<or>
   Status (approvedRow ops oi r) = js ''Not Ready''"
  by (simp add: approvedRow_def Let_def split_beta)

lemma three_way_count:
  assumes "a \<noteq> b" "a \<noteq> c" "b \<noteq> c"
    and "\<forall>x\<in>set xs. f x = a \<or> f x = b \<or> f x = c"
  shows "length (filter (\<lambda>x. f x = a) xs) + length (filter (\<lambda>x. f x = b) xs) +
         length (filter (\<lambda>x. f x = c) xs) = length xs"
  using assms(4)
proof (induction xs)
  case Nil
  then show ?case by simp
next
  case (Cons x xs)
  then have "f x = a \<or> f x = b \<or> f x = c" by simp
  with Cons assms(1-3) show ?case by auto
qed

lemma runApproved_invalid:
  assumes "\<not> approvedValid axonRows oiRows"
  shows "\<exists>msg. runApproved ops axonRows oiRows st = (Some (Error msg), st\<lparr>logText := msgReading\<rparr>) \<and>
    ((\<exists>c\<in>set [js ''Invoice#'', js ''Tickets'', js ''Date'', js ''Name'', js ''Balance Due''].
        msg = js ''AXON missing column: '' @ c \<and> (axonRows = [] \<or> \<not> hasKey c (hd axonRows))) \<or>
     msg = js ''OpenInvoice missing column: Ticket'' \<and>
       (oiRows = [] \<or> \<not> hasKey (js ''Ticket'') (hd oiRows)))"
proof (cases "firstMissing axonRows
    [js ''Invoice#'', js ''Tickets'', js ''Date'', js ''Name'', js ''Balance Due'']")
  case (Some c)
  then have r: "runApproved ops axonRows oiRows st =
      (Some (Error (js ''AXON missing column: '' @ c)), st\<lparr>logText := msgReading\<rparr>)"
    by (simp add: runApproved_def Let_def log_def)
  from Some have
    "c \<in> set [js ''Invoice#'', js ''Tickets'', js ''Date'', js ''Name'', js ''Balance Due''] \<and>
     lacksColumn axonRows c"
    by (rule firstMissing_Some)
  with r show ?thesis unfolding lacksColumn_hd by blast
next
  case None
  then have "\<forall>c\<in>set [js ''Invoice#'', js ''Tickets'', js ''Date'', js ''Name'', js ''Balance Due''].
      \<not> lacksColumn axonRows c"
    by (simp only: firstMissing_None)
  with assms have l: "lacksColumn oiRows (js ''Ticket'')"
    by (auto simp: lacksColumn_hd approvedValid_def)
  with None have "runApproved ops axonRows oiRows st =
      (Some (Error (js ''OpenInvoice missing column: Ticket'')), st\<lparr>logText := msgReading\<rparr>)"
    by (simp add: runApproved_def Let_def log_def)
  with l show ?thesis unfolding lacksColumn_hd by blast
qed

lemma runApproved_first_rows:
  "fst (runApproved ops (take 1 axonRows) (take 1 oiRows) st) =
   fst (runApproved ops axonRows oiRows st)"
  by (simp add: runApproved_def Let_def firstMissing_take lacksColumn_take
      split: option.splits)

lemma splitFrom_no_sep:
  "c \<notin> set t \<Longrightarrow> splitFrom cur (t @ rest) c = splitFrom (cur @ t) rest c"
  by (induction t arbitrary: cur) auto

lemma splitFrom_nonempty: "splitFrom cur xs c \<noteq> []"
  by (induction xs arbitrary: cur) simp_all

lemma split_joinComma:
  "ps \<noteq> [] \<Longrightarrow> \<forall>p\<in>set ps. COMMA \<notin> set p \<Longrightarrow> split (joinComma ps) COMMA = ps"
proof (induction ps rule: joinComma.induct)
  case 1
  then show ?case by simp
next
  case (2 p)
  then have "splitFrom [] (p @ []) COMMA = splitFrom ([] @ p) [] COMMA"
    by (intro splitFrom_no_sep) simp
  then show ?case by (simp add: split_def)
next
  case (3 p q ps)
  then have "splitFrom [] (p @ COMMA # joinComma (q # ps)) COMMA =
      splitFrom ([] @ p) (COMMA # joinComma (q # ps)) COMMA"
    by (intro splitFrom_no_sep) simp
  with 3 show ?case by (simp add: split_def)
qed

lemma splitFrom_prefix:
  "splitFrom (a @ cur) xs c = (a @ hd (splitFrom cur xs c)) # tl (splitFrom cur xs c)"
proof (induction xs arbitrary: cur)
  case Nil
  then show ?case by simp
next
  case (Cons x xs)
  from Cons [of "cur @ [x]"] show ?case by simp
qed

lemma trim_Cons_ws: "isWhiteSpace x \<Longrightarrow> trim (x # h) = trim h"
  by (simp add: trim_def trimStart_def)

lemma trim_snoc_ws: "isWhiteSpace x \<Longrightarrow> trim (l @ [x]) = trim l"
proof (cases "\<forall>y\<in>set l. isWhiteSpace y")
  case True
  assume "isWhiteSpace x"
  with True show ?thesis
    by (auto simp: trim_def trimStart_def trimEnd_def dropWhile_append dest: set_dropWhileD)
next
  case False
  assume "isWhiteSpace x"
  with False show ?thesis
    by (auto simp: trim_def trimStart_def trimEnd_def dropWhile_append)
qed

lemma split_trimStart:
  assumes "\<not> isWhiteSpace c"
  shows "map trim (split (trimStart s) c) = map trim (split s c)"
proof (induction s)
  case Nil
  then show ?case by (simp add: trimStart_def)
next
  case (Cons x xs)
  show ?case
  proof (cases "isWhiteSpace x")
    case True
    with assms have ne: "x \<noteq> c" by auto
    obtain h t where S: "splitFrom [] xs c = h # t"
      using splitFrom_nonempty [of "[]" xs c] by (cases "splitFrom [] xs c") auto
    from ne have "split (x # xs) c = splitFrom ([x] @ []) xs c" by (simp add: split_def)
    also have "\<dots> = ([x] @ hd (splitFrom [] xs c)) # tl (splitFrom [] xs c)"
      by (rule splitFrom_prefix)
    finally have "split (x # xs) c = (x # h) # t" using S by simp
    then have "map trim (split (x # xs) c) = map trim (split xs c)"
      using True S by (simp add: trim_Cons_ws split_def)
    moreover from True have "trimStart (x # xs) = trimStart xs" by (simp add: trimStart_def)
    ultimately show ?thesis using Cons by simp
  next
    case False
    then show ?thesis by (simp add: trimStart_def)
  qed
qed

lemma splitFrom_snoc:
  "x \<noteq> c \<Longrightarrow> splitFrom cur (xs @ [x]) c =
     butlast (splitFrom cur xs c) @ [last (splitFrom cur xs c) @ [x]]"
  by (induction xs arbitrary: cur) (simp_all add: splitFrom_nonempty)

lemma split_trimEnd:
  assumes "\<not> isWhiteSpace c"
  shows "map trim (split (trimEnd s) c) = map trim (split s c)"
proof (induction s rule: rev_induct)
  case Nil
  then show ?case by (simp add: trimEnd_def)
next
  case (snoc x xs)
  show ?case
  proof (cases "isWhiteSpace x")
    case True
    with assms have ne: "x \<noteq> c" by auto
    have S: "split xs c \<noteq> []" by (simp add: split_def splitFrom_nonempty)
    from ne have "split (xs @ [x]) c = butlast (split xs c) @ [last (split xs c) @ [x]]"
      by (simp add: split_def splitFrom_snoc)
    then have "map trim (split (xs @ [x]) c) =
        map trim (butlast (split xs c) @ [last (split xs c)])"
      using True by (simp add: trim_snoc_ws)
    with S have "map trim (split (xs @ [x]) c) = map trim (split xs c)" by simp
    moreover from True have "trimEnd (xs @ [x]) = trimEnd xs" by (simp add: trimEnd_def)
    ultimately show ?thesis using snoc by simp
  next
    case False
    then show ?thesis by (simp add: trimEnd_def)
  qed
qed

lemma not_ws_comma: "\<not> isWhiteSpace COMMA"
  by (simp add: isWhiteSpace_def)

lemma split_trim: "map trim (split (trim s) COMMA) = map trim (split s COMMA)"
  by (simp add: trim_def split_trimEnd split_trimStart not_ws_comma)

lemma splitAxonTickets_pieces:
  assumes "cell \<noteq> JNull" "cell \<noteq> JUndefined"
  shows "splitAxonTickets ops cell =
    filter (\<lambda>p. p \<noteq> []) (map trim (split (toString ops cell) COMMA))"
proof -
  have e: "trim [] = []" by (simp add: trim_def trimStart_def trimEnd_def)
  have "(let s = trim (toString ops cell)
         in if s = [] then [] else filter (\<lambda>p. p \<noteq> []) (map trim (split s COMMA))) =
        filter (\<lambda>p. p \<noteq> []) (map trim (split (toString ops cell) COMMA))"
  proof (cases "trim (toString ops cell) = []")
    case True
    with split_trim [of "toString ops cell"] have
      "map trim (split (toString ops cell) COMMA) = [[]]"
      by (simp add: split_def e)
    with True show ?thesis by simp
  next
    case False
    with split_trim [of "toString ops cell"] show ?thesis by (simp add: Let_def)
  qed
  with assms show ?thesis by (cases cell) simp_all
qed

lemma count_list_filter:
  "count_list (filter P xs) x = (if P x then count_list xs x else 0)"
  by (induction xs) simp_all

lemma length_as_counts: "length ks = (\<Sum>k\<in>set ks. count_list ks k)"
  by (simp add: sum_count_set)

lemma length_filter_as_counts:
  "length (filter (\<lambda>k. k \<in> A) ks) = (\<Sum>k\<in>set ks \<inter> A. count_list ks k)"
proof -
  have "length (filter (\<lambda>k. k \<in> A) ks) =
      (\<Sum>k\<in>set (filter (\<lambda>k. k \<in> A) ks). count_list (filter (\<lambda>k. k \<in> A) ks) k)"
    by (rule length_as_counts)
  also have "set (filter (\<lambda>k. k \<in> A) ks) = set ks \<inter> A" by auto
  also have "(\<Sum>k\<in>set ks \<inter> A. count_list (filter (\<lambda>k. k \<in> A) ks) k) =
      (\<Sum>k\<in>set ks \<inter> A. count_list ks k)"
    by (rule sum.cong) (simp_all add: count_list_filter)
  finally show ?thesis .
qed

lemma approvedRow_Ready:
  "0 < fst (approvedCounts ops oi (getv r (js ''Tickets''))) \<Longrightarrow>
   snd (approvedCounts ops oi (getv r (js ''Tickets''))) =
     fst (approvedCounts ops oi (getv r (js ''Tickets''))) \<Longrightarrow>
   Status (approvedRow ops oi r) = js ''Ready to Flip''"
  by (simp add: approvedRow_def split_beta)

section \<open>Facts about the remittance tool\<close>

lemma remitLoop_eq:
  "remitLoop ops m rs (out, p, x) =
     (out @ map (remitRow ops m) rs,
      foldl (num_add ops) p (numbersOf (map PioneerNaturalResources (map (remitRow ops m) rs))),
      foldl (num_add ops) x (numbersOf (map XTO_column (map (remitRow ops m) rs))))"
proof (induction rs arbitrary: out p x)
  case Nil
  then show ?case by simp
next
  case (Cons r rs)
  show ?case
    by (simp add: Cons.IH Let_def remitRow_def del: normalizeInvoice.simps)
qed

lemma runRemit_valid:
  assumes "remitValid axonRows remRows"
  shows "runRemit ops axonRows remRows st =
    (None, st\<lparr>logText := msgDone, downloads := downloads st @
       [([(js ''Customer Breakdown'',
           RemitRows (map (remitRow ops (invToCustomer ops axonRows)) remRows @
             [\<lparr>Reference = JStr [], Net_Amount = JStr [], Customer = js ''TOTAL'',
               PioneerNaturalResources = JNum (foldl (num_add ops) (num_zero ops)
                 (numbersOf (map PioneerNaturalResources
                    (map (remitRow ops (invToCustomer ops axonRows)) remRows)))),
               XTO_column = JNum (foldl (num_add ops) (num_zero ops)
                 (numbersOf (map XTO_column
                    (map (remitRow ops (invToCustomer ops axonRows)) remRows))))\<rparr>])),
          (js ''Not Found in AXON'',
           RemitRows (filter (\<lambda>r. Customer r = NOT_FOUND)
             (map (remitRow ops (invToCustomer ops axonRows)) remRows @
             [\<lparr>Reference = JStr [], Net_Amount = JStr [], Customer = js ''TOTAL'',
               PioneerNaturalResources = JNum (foldl (num_add ops) (num_zero ops)
                 (numbersOf (map PioneerNaturalResources
                    (map (remitRow ops (invToCustomer ops axonRows)) remRows)))),
               XTO_column = JNum (foldl (num_add ops) (num_zero ops)
                 (numbersOf (map XTO_column
                    (map (remitRow ops (invToCustomer ops axonRows)) remRows))))\<rparr>])))],
         js ''remittance_breakdown.xlsx'')]\<rparr>)"
proof -
  from assms have "firstMissing axonRows [js ''Invoice#'', js ''Name''] = None"
    by (simp add: firstMissing_None lacksColumn_hd remitValid_def)
  moreover from assms have
    "(case remRows of [] \<Rightarrow> False
      | r # _ \<Rightarrow> hasKey (js ''Reference'') r \<or> hasKey (js ''Reference/Text'') r)"
    "\<not> lacksColumn remRows (js ''Net Amount'')"
    by (auto simp: lacksColumn_hd remitValid_def split: list.split)
  ultimately show ?thesis
    by (simp add: runRemit_def Let_def log_def downloadWorkbook_def remitLoop_eq)
qed

lemma newMap_snoc: "newMap (ps @ [(k, v)]) = (newMap ps)(k \<mapsto> v)"
  by (simp add: newMap_def)

lemma invToCustomer_Nil: "invToCustomer ops [] = Map.empty"
  by (simp add: invToCustomer_def newMap_def)

lemma invToCustomer_snoc:
  "invToCustomer ops (rows @ [r]) =
     (if normalizeInvoice ops (getv r (js ''Invoice#'')) = [] then invToCustomer ops rows
      else (invToCustomer ops rows)
        (normalizeInvoice ops (getv r (js ''Invoice#'')) \<mapsto> trim (toString ops (getv r (js ''Name'')))))"
  by (simp add: invToCustomer_def newMap_snoc)

lemma invToCustomer_last:
  "invToCustomer ops axonRows k =
     (if k = [] then None
      else case filter (\<lambda>r. normalizeInvoice ops (getv r (js ''Invoice#'')) = k) axonRows of
             [] \<Rightarrow> None
           | r # rs \<Rightarrow> Some (trim (toString ops (getv (last (r # rs)) (js ''Name'')))))"
proof (induction axonRows rule: rev_induct)
  case Nil
  then show ?case by (simp add: invToCustomer_Nil)
next
  case (snoc r rows)
  show ?case
  proof (cases "normalizeInvoice ops (getv r (js ''Invoice#'')) = k")
    case True
    with snoc.IH show ?thesis
      by (cases "filter (\<lambda>r. normalizeInvoice ops (getv r (js ''Invoice#'')) = k) rows")
        (auto simp: invToCustomer_snoc)
  next
    case False
    with snoc.IH show ?thesis
      by (auto simp: invToCustomer_snoc)
  qed
qed

lemma remitRow_Customer:
  "Customer (remitRow ops m r) =
     (case m (normalizeInvoice ops
              (if hasKey (js ''Reference'') r then getv r (js ''Reference'')
               else getv r (js ''Reference/Text''))) of
        None \<Rightarrow> js ''NOT FOUND IN AXON''
      | Some name \<Rightarrow> if name = [] then js ''NOT FOUND IN AXON'' else name)"
  unfolding remitRow_def customerOf_def NOT_FOUND_def Let_def
  by (simp only: remit_row.select_convs)

lemmas remit_defs = invToCustomer_def newMap_def remitValid_def

lemma foldl_cellOrZero:
  assumes "\<forall>a. num_add ops a (num_zero ops) = a"
  shows "foldl (num_add ops) p (map (cellOrZero ops) vs) = foldl (num_add ops) p (numbersOf vs)"
proof (induction vs arbitrary: p)
  case Nil
  then show ?case by simp
next
  case (Cons v vs)
  with assms show ?case by (cases v) (simp_all add: cellOrZero_def)
qed

lemma remitRow_buckets:
  "((\<exists>a. PioneerNaturalResources (remitRow ops m r) = JNum a) \<or>
      PioneerNaturalResources (remitRow ops m r) = JStr []) \<and>
   ((\<exists>a. XTO_column (remitRow ops m r) = JNum a) \<or> XTO_column (remitRow ops m r) = JStr [])"
  by (simp add: remitRow_def Let_def del: normalizeInvoice.simps)

lemmas num_defs = netAmount_def truthyNum_def decimalOps_def decOfString_def

section \<open>The normalizers\<close>

text \<open>
  C7. \<open>normalizeTicket\<close> and \<open>normalizeInvoice\<close> are total and have the same contract:
  \<open>null\<close> and \<open>undefined\<close> give the empty string; any other value is converted to a string
  and trimmed, then a final \<open>.0\<close> is dropped, then every comma and every space is removed.
  Both functions of the source compute the function that the specification words.
\<close>

theorem normalizers_contract:
  "normalizeTicket ops x = normalize_spec ops x \<and> normalizeInvoice ops x = normalize_spec ops x"
  by (cases x)
    (simp_all add: normalize_spec_def remove_commas_spaces endsWith_dot_zero slice_two Let_def)

theorem normalizers_contract_witness:
  "normalize_spec decimalOps (JStr (js '' 1,2 34.0 '')) = js ''1234''"
proof -
  have "normalizeTicket decimalOps (JStr (js '' 1,2 34.0 '')) = js ''1234''"
    by (simp add: str_defs)
  with normalizers_contract [of decimalOps "JStr (js '' 1,2 34.0 '')"] show ?thesis
    by (simp only:)
qed

text \<open>
  C5, as stated: normalizing twice gives the same as normalizing once, for every input.
  It fails: the normalizers drop one final \<open>.0\<close> per call and trim before they drop it,
  so a result can end in \<open>.0\<close> again, or end in a tab that the next call trims.
\<close>

theorem normalize_not_idempotent:
  "normalizeTicket decimalOps (JStr (normalizeTicket decimalOps (JStr (js ''1234.0.0'')))) \<noteq>
     normalizeTicket decimalOps (JStr (js ''1234.0.0'')) \<and>
   normalizeInvoice decimalOps (JStr (normalizeInvoice decimalOps (JStr (js ''1234.0.0'')))) \<noteq>
     normalizeInvoice decimalOps (JStr (js ''1234.0.0'')) \<and>
   normalizeTicket decimalOps (JStr (normalizeTicket decimalOps (JStr (js ''12'' @ [0x09] @ js ''.0'')))) \<noteq>
     normalizeTicket decimalOps (JStr (js ''12'' @ [0x09] @ js ''.0''))"
  by (simp add: str_defs)

text \<open>
  C5, amended: for every input \<open>x\<close>, normalizing the result again changes nothing exactly
  when the result has no leading or trailing whitespace and does not end in \<open>.0\<close>.
\<close>

theorem normalize_twice:
  "(normalizeTicket ops (JStr (normalizeTicket ops x)) = normalizeTicket ops x \<longleftrightarrow>
      trim (normalizeTicket ops x) = normalizeTicket ops x \<and>
      \<not> endsWith (normalizeTicket ops x) (js ''.0'')) \<and>
   (normalizeInvoice ops (JStr (normalizeInvoice ops x)) = normalizeInvoice ops x \<longleftrightarrow>
      trim (normalizeInvoice ops x) = normalizeInvoice ops x \<and>
      \<not> endsWith (normalizeInvoice ops x) (js ''.0''))"
  using normalizeTicket_clean [of ops x]
  by (simp add: normalizeInvoice_eq twice_iff del: normalizeTicket.simps)

theorem normalize_twice_witness:
  "normalizeTicket decimalOps (JStr (normalizeTicket decimalOps (JStr (js '' 1,234.0 '')))) =
   normalizeTicket decimalOps (JStr (js '' 1,234.0 ''))"
proof -
  have a: "normalizeTicket decimalOps (JStr (js '' 1,234.0 '')) = js ''1234''"
    by (simp add: str_defs)
  have b: "trim (js ''1234'') = js ''1234''" by (simp add: str_defs)
  have c: "\<not> endsWith (js ''1234'') (js ''.0'')" by (simp add: str_defs)
  from normalize_twice [of decimalOps "JStr (js '' 1,234.0 '')"] a b c show ?thesis
    by (simp only: simp_thms)
qed

text \<open>
  C6, as stated: when the string form of a value ends in \<open>.0\<close>, the result is that string
  without its last two characters, otherwise unchanged. It fails on \<open>1,234.0\<close>, whose
  comma is removed as well.
\<close>

theorem strip_dot_zero_rest_changed:
  "endsWith (toString decimalOps (JStr (js ''1,234.0''))) (js ''.0'') \<and>
   slice_to_neg (toString decimalOps (JStr (js ''1,234.0''))) 2 = js ''1,234'' \<and>
   normalizeTicket decimalOps (JStr (js ''1,234.0'')) = js ''1234'' \<and>
   js ''1234'' \<noteq> js ''1,234''"
  by (simp add: str_defs)

text \<open>
  C6, amended: when the string form of a value ends in \<open>.0\<close>, the result is the string
  without those two characters, with leading whitespace trimmed and every comma and space
  removed; it is exactly the rest when the rest has no leading whitespace, comma or space,
  as in \<open>normalizeTicket("1234.0") == "1234"\<close>.
\<close>

theorem strip_dot_zero:
  "endsWith (toString ops x) (js ''.0'') \<Longrightarrow>
     normalizeTicket ops x =
       filter (\<lambda>c. c \<noteq> COMMA \<and> c \<noteq> SPACE) (trimStart (slice_to_neg (toString ops x) 2)) \<and>
     (trimStart (slice_to_neg (toString ops x) 2) = slice_to_neg (toString ops x) 2 \<and>
      COMMA \<notin> set (slice_to_neg (toString ops x) 2) \<and>
      SPACE \<notin> set (slice_to_neg (toString ops x) 2) \<longrightarrow>
        normalizeTicket ops x = slice_to_neg (toString ops x) 2) \<and>
     normalizeInvoice ops x = normalizeTicket ops x"
proof -
  assume "endsWith (toString ops x) (js ''.0'')"
  then obtain r where r: "toString ops x = r @ [0x2E, 0x30]"
    by (auto simp: endsWith_append dot_zero)
  then have s: "slice_to_neg (toString ops x) 2 = r" by (simp add: slice_to_neg_def)
  have n: "normalizeTicket ops x = filter (\<lambda>c. c \<noteq> COMMA \<and> c \<noteq> SPACE) (trimStart r)"
    using r by (rule normalize_dot_zero)
  have "trimStart r = r \<and> COMMA \<notin> set r \<and> SPACE \<notin> set r \<longrightarrow> normalizeTicket ops x = r"
  proof
    assume h: "trimStart r = r \<and> COMMA \<notin> set r \<and> SPACE \<notin> set r"
    then have "filter (\<lambda>c. c \<noteq> COMMA \<and> c \<noteq> SPACE) r = r" by (intro filter_True) auto
    with n h show "normalizeTicket ops x = r" by simp
  qed
  with n s show ?thesis by (simp only: normalizeInvoice_eq simp_thms)
qed

theorem strip_dot_zero_witness:
  "endsWith (toString decimalOps (JStr (js ''1234.0''))) (js ''.0'') \<and>
   normalizeTicket decimalOps (JStr (js ''1234.0'')) = js ''1234''"
proof -
  have e: "endsWith (toString decimalOps (JStr (js ''1234.0''))) (js ''.0'')"
    by (simp add: str_defs)
  have s: "slice_to_neg (toString decimalOps (JStr (js ''1234.0''))) 2 = js ''1234''"
    by (simp add: str_defs)
  have t: "trimStart (js ''1234'') = js ''1234''" by (simp add: str_defs)
  have c: "COMMA \<notin> set (js ''1234'') \<and> SPACE \<notin> set (js ''1234'')" by (simp add: str_defs)
  from strip_dot_zero [OF e] have
    "trimStart (slice_to_neg (toString decimalOps (JStr (js ''1234.0''))) 2) =
       slice_to_neg (toString decimalOps (JStr (js ''1234.0''))) 2 \<and>
     COMMA \<notin> set (slice_to_neg (toString decimalOps (JStr (js ''1234.0''))) 2) \<and>
     SPACE \<notin> set (slice_to_neg (toString decimalOps (JStr (js ''1234.0''))) 2) \<longrightarrow>
     normalizeTicket decimalOps (JStr (js ''1234.0'')) =
       slice_to_neg (toString decimalOps (JStr (js ''1234.0''))) 2"
    by (elim conjE)
  with s t c have "normalizeTicket decimalOps (JStr (js ''1234.0'')) = js ''1234''"
    by (simp only: simp_thms)
  with e show ?thesis by (rule conjI)
qed

section \<open>The approved tool\<close>

text \<open>
  C1. On tables that pass validation, \<open>runApproved\<close> writes one status row per AXON row, and
  the \<open>Status\<close> of each is decided by two counts: \<open>total\<close>, the number of nonempty
  normalized ticket tokens of the row's \<open>Tickets\<close> cell, and \<open>matched\<close>, the number of those
  that are a nonempty normalized \<open>Ticket\<close> of some OpenInvoice row. It is \<open>Ready to Flip\<close>
  when \<open>total > 0\<close> and \<open>matched = total\<close>, else \<open>Pending\<close> when \<open>total > 0\<close> and
  \<open>matched > 0\<close>, else \<open>Not Ready\<close>.
\<close>

theorem approved_status:
  assumes "approvedValid axonRows oiRows"
  shows "\<exists>summary out.
    runApproved ops axonRows oiRows st =
      (None, st\<lparr>logText := msgDone, downloads := downloads st @
         [([(js ''Summary'', SummaryRows summary), (js ''Invoice Status'', StatusRows out)],
           js ''approved_invoice_status.xlsx'')]\<rparr>) \<and>
    length out = length axonRows \<and>
    (\<forall>i<length axonRows.
       Status (out ! i) =
         (let tokens = filter (\<lambda>t. t \<noteq> [])
                (map (\<lambda>t. normalizeTicket ops (JStr t))
                   (splitAxonTickets ops (getv (axonRows ! i) (js ''Tickets''))));
              total = length tokens;
              matched = length (filter (\<lambda>t. t \<noteq> [] \<and>
                 (\<exists>r\<in>set oiRows. normalizeTicket ops (getv r (js ''Ticket'')) = t)) tokens)
          in if total > 0 \<and> matched = total then js ''Ready to Flip''
             else if total > 0 \<and> matched > 0 then js ''Pending''
             else js ''Not Ready''))"
proof (intro exI conjI)
  show "runApproved ops axonRows oiRows st =
    (None, st\<lparr>logText := msgDone, downloads := downloads st @
       [([(js ''Summary'',
           SummaryRows (approvedSummary (map (approvedRow ops (oiSet ops oiRows)) axonRows))),
          (js ''Invoice Status'',
           StatusRows (map (approvedRow ops (oiSet ops oiRows)) axonRows))],
         js ''approved_invoice_status.xlsx'')]\<rparr>)"
    using assms by (rule runApproved_valid)
  show "length (map (approvedRow ops (oiSet ops oiRows)) axonRows) = length axonRows"
    by simp
  show "\<forall>i<length axonRows.
       Status (map (approvedRow ops (oiSet ops oiRows)) axonRows ! i) =
         (let tokens = filter (\<lambda>t. t \<noteq> [])
                (map (\<lambda>t. normalizeTicket ops (JStr t))
                   (splitAxonTickets ops (getv (axonRows ! i) (js ''Tickets''))));
              total = length tokens;
              matched = length (filter (\<lambda>t. t \<noteq> [] \<and>
                 (\<exists>r\<in>set oiRows. normalizeTicket ops (getv r (js ''Ticket'')) = t)) tokens)
          in if total > 0 \<and> matched = total then js ''Ready to Flip''
             else if total > 0 \<and> matched > 0 then js ''Pending''
             else js ''Not Ready'')"
  proof (intro allI impI)
    fix i
    assume "i < length axonRows"
    then have "map (approvedRow ops (oiSet ops oiRows)) axonRows ! i =
        approvedRow ops (oiSet ops oiRows) (axonRows ! i)"
      by simp
    then show "Status (map (approvedRow ops (oiSet ops oiRows)) axonRows ! i) =
         (let tokens = filter (\<lambda>t. t \<noteq> [])
                (map (\<lambda>t. normalizeTicket ops (JStr t))
                   (splitAxonTickets ops (getv (axonRows ! i) (js ''Tickets''))));
              total = length tokens;
              matched = length (filter (\<lambda>t. t \<noteq> [] \<and>
                 (\<exists>r\<in>set oiRows. normalizeTicket ops (getv r (js ''Ticket'')) = t)) tokens)
          in if total > 0 \<and> matched = total then js ''Ready to Flip''
             else if total > 0 \<and> matched > 0 then js ''Pending''
             else js ''Not Ready'')"
      by (simp only: approvedRow_Status)
  qed
qed

theorem approved_status_witness:
  "approvedValid [axonRow ''1001'' ''T1,T2'' ''Acme''] [oiRow ''T1''] \<and>
   (\<exists>summary out.
      runApproved decimalOps [axonRow ''1001'' ''T1,T2'' ''Acme''] [oiRow ''T1''] emptyUi =
        (None, emptyUi\<lparr>logText := msgDone, downloads := downloads emptyUi @
           [([(js ''Summary'', SummaryRows summary), (js ''Invoice Status'', StatusRows out)],
             js ''approved_invoice_status.xlsx'')]\<rparr>) \<and>
      Status (out ! 0) = js ''Pending'')"
proof -
  have v: "approvedValid [axonRow ''1001'' ''T1,T2'' ''Acme''] [oiRow ''T1'']"
    by (simp add: approvedValid_def run_defs js_def)
  from approved_status [OF v, of decimalOps emptyUi] obtain summary out where
    r: "runApproved decimalOps [axonRow ''1001'' ''T1,T2'' ''Acme''] [oiRow ''T1''] emptyUi =
        (None, emptyUi\<lparr>logText := msgDone, downloads := downloads emptyUi @
           [([(js ''Summary'', SummaryRows summary), (js ''Invoice Status'', StatusRows out)],
             js ''approved_invoice_status.xlsx'')]\<rparr>)"
    and s: "\<forall>i<length [axonRow ''1001'' ''T1,T2'' ''Acme''].
       Status (out ! i) =
         (let tokens = filter (\<lambda>t. t \<noteq> [])
                (map (\<lambda>t. normalizeTicket decimalOps (JStr t))
                   (splitAxonTickets decimalOps
                      (getv ([axonRow ''1001'' ''T1,T2'' ''Acme''] ! i) (js ''Tickets''))));
              total = length tokens;
              matched = length (filter (\<lambda>t. t \<noteq> [] \<and>
                 (\<exists>r\<in>set [oiRow ''T1''].
                     normalizeTicket decimalOps (getv r (js ''Ticket'')) = t)) tokens)
          in if total > 0 \<and> matched = total then js ''Ready to Flip''
             else if total > 0 \<and> matched > 0 then js ''Pending''
             else js ''Not Ready'')"
    by blast
  from s have "Status (out ! 0) = js ''Pending''"
    by (simp add: run_defs str_defs)
  with v r show ?thesis by blast
qed

text \<open>
  C2. On tables that pass validation, the four values of the \<open>Summary\<close> sheet are the number
  of AXON rows and the numbers of status rows with each of the three statuses, and the
  three status counts add up to the number of AXON rows.
\<close>

theorem approved_summary_counts:
  assumes "approvedValid axonRows oiRows"
  shows "\<exists>out nReady nPending nNotReady.
    runApproved ops axonRows oiRows st =
      (None, st\<lparr>logText := msgDone, downloads := downloads st @
         [([(js ''Summary'',
             SummaryRows
               [\<lparr>Metric = js ''Invoices (AXON rows)'', Value = length axonRows\<rparr>,
                \<lparr>Metric = js ''Ready to Flip'', Value = nReady\<rparr>,
                \<lparr>Metric = js ''Pending'', Value = nPending\<rparr>,
                \<lparr>Metric = js ''Not Ready'', Value = nNotReady\<rparr>]),
            (js ''Invoice Status'', StatusRows out)],
           js ''approved_invoice_status.xlsx'')]\<rparr>) \<and>
    nReady = length (filter (\<lambda>r. Status r = js ''Ready to Flip'') out) \<and>
    nPending = length (filter (\<lambda>r. Status r = js ''Pending'') out) \<and>
    nNotReady = length (filter (\<lambda>r. Status r = js ''Not Ready'') out) \<and>
    nReady + nPending + nNotReady = length axonRows"
proof -
  define out where "out = map (approvedRow ops (oiSet ops oiRows)) axonRows"
  have len: "length out = length axonRows" by (simp add: out_def)
  have "\<forall>r\<in>set out. Status r = js ''Ready to Flip'' \<or> Status r = js ''Pending'' \<or>
      Status r = js ''Not Ready''"
    using approvedRow_three by (auto simp: out_def)
  with status_distinct have
    "length (filter (\<lambda>r. Status r = js ''Ready to Flip'') out) +
     length (filter (\<lambda>r. Status r = js ''Pending'') out) +
     length (filter (\<lambda>r. Status r = js ''Not Ready'') out) = length out"
    by (rule three_way_count)
  moreover have "runApproved ops axonRows oiRows st =
      (None, st\<lparr>logText := msgDone, downloads := downloads st @
         [([(js ''Summary'',
             SummaryRows
               [\<lparr>Metric = js ''Invoices (AXON rows)'', Value = length axonRows\<rparr>,
                \<lparr>Metric = js ''Ready to Flip'',
                 Value = length (filter (\<lambda>r. Status r = js ''Ready to Flip'') out)\<rparr>,
                \<lparr>Metric = js ''Pending'',
                 Value = length (filter (\<lambda>r. Status r = js ''Pending'') out)\<rparr>,
                \<lparr>Metric = js ''Not Ready'',
                 Value = length (filter (\<lambda>r. Status r = js ''Not Ready'') out)\<rparr>]),
            (js ''Invoice Status'', StatusRows out)],
           js ''approved_invoice_status.xlsx'')]\<rparr>)"
    unfolding runApproved_valid [OF assms] out_def [symmetric] approvedSummary_def len ..
  ultimately show ?thesis using len by (intro exI conjI) (assumption | rule refl | simp)+
qed

theorem approved_summary_counts_witness:
  "approvedValid
     [axonRow ''1001'' ''T1,T2'' ''Acme'', axonRow ''1002'' ''T1'' ''Acme'', axonRow ''1003'' '''' ''Acme'']
     [oiRow ''T1''] \<and>
   (\<exists>out nReady nPending nNotReady.
      runApproved decimalOps
        [axonRow ''1001'' ''T1,T2'' ''Acme'', axonRow ''1002'' ''T1'' ''Acme'', axonRow ''1003'' '''' ''Acme'']
        [oiRow ''T1''] emptyUi =
      (None, emptyUi\<lparr>logText := msgDone, downloads := downloads emptyUi @
         [([(js ''Summary'',
             SummaryRows
               [\<lparr>Metric = js ''Invoices (AXON rows)'', Value = 3\<rparr>,
                \<lparr>Metric = js ''Ready to Flip'', Value = nReady\<rparr>,
                \<lparr>Metric = js ''Pending'', Value = nPending\<rparr>,
                \<lparr>Metric = js ''Not Ready'', Value = nNotReady\<rparr>]),
            (js ''Invoice Status'', StatusRows out)],
           js ''approved_invoice_status.xlsx'')]\<rparr>) \<and>
      nReady + nPending + nNotReady = 3)"
proof -
  have v: "approvedValid
     [axonRow ''1001'' ''T1,T2'' ''Acme'', axonRow ''1002'' ''T1'' ''Acme'', axonRow ''1003'' '''' ''Acme'']
     [oiRow ''T1'']"
    by (simp add: approvedValid_def run_defs js_def)
  have l: "length
     [axonRow ''1001'' ''T1,T2'' ''Acme'', axonRow ''1002'' ''T1'' ''Acme'', axonRow ''1003'' '''' ''Acme''] = 3"
    by simp
  from approved_summary_counts [OF v, of decimalOps emptyUi] show ?thesis
    unfolding l using v by blast
qed

text \<open>
  C9. When the AXON table is empty or its first row lacks one of \<open>Invoice#\<close>, \<open>Tickets\<close>,
  \<open>Date\<close>, \<open>Name\<close>, \<open>Balance Due\<close>, or the OpenInvoice table is empty or its first row
  lacks \<open>Ticket\<close>, \<open>runApproved\<close> throws an error whose message names a column that is
  missing, starts no download, and throws the same error on the first rows alone.
\<close>

theorem approved_validation_error:
  assumes "\<not> approvedValid axonRows oiRows"
  shows "\<exists>msg.
    fst (runApproved ops axonRows oiRows st) = Some (Error msg) \<and>
    ((\<exists>c\<in>set [js ''Invoice#'', js ''Tickets'', js ''Date'', js ''Name'', js ''Balance Due''].
        msg = js ''AXON missing column: '' @ c \<and> (axonRows = [] \<or> \<not> hasKey c (hd axonRows))) \<or>
     msg = js ''OpenInvoice missing column: Ticket'' \<and>
       (oiRows = [] \<or> \<not> hasKey (js ''Ticket'') (hd oiRows))) \<and>
    downloads (snd (runApproved ops axonRows oiRows st)) = downloads st \<and>
    fst (runApproved ops (take 1 axonRows) (take 1 oiRows) st) = Some (Error msg)"
proof -
  from runApproved_invalid [OF assms, of ops st] obtain msg where
    r: "runApproved ops axonRows oiRows st = (Some (Error msg), st\<lparr>logText := msgReading\<rparr>)"
    and m: "(\<exists>c\<in>set [js ''Invoice#'', js ''Tickets'', js ''Date'', js ''Name'', js ''Balance Due''].
        msg = js ''AXON missing column: '' @ c \<and> (axonRows = [] \<or> \<not> hasKey c (hd axonRows))) \<or>
     msg = js ''OpenInvoice missing column: Ticket'' \<and>
       (oiRows = [] \<or> \<not> hasKey (js ''Ticket'') (hd oiRows))"
    by blast
  from r have "fst (runApproved ops axonRows oiRows st) = Some (Error msg)"
    and "downloads (snd (runApproved ops axonRows oiRows st)) = downloads st"
    by simp_all
  with m runApproved_first_rows [of ops axonRows oiRows st] show ?thesis by metis
qed

theorem approved_validation_error_witness:
  "\<not> approvedValid
       [[(js ''Invoice#'', JStr (js ''1001'')), (js ''Tickets'', JStr (js ''T1'')),
         (js ''Date'', JStr []), (js ''Balance Due'', JStr (js ''10''))]]
       [oiRow ''T1''] \<and>
   fst (runApproved decimalOps
       [[(js ''Invoice#'', JStr (js ''1001'')), (js ''Tickets'', JStr (js ''T1'')),
         (js ''Date'', JStr []), (js ''Balance Due'', JStr (js ''10''))]]
       [oiRow ''T1''] emptyUi) = Some (Error (js ''AXON missing column: Name'')) \<and>
   downloads (snd (runApproved decimalOps
       [[(js ''Invoice#'', JStr (js ''1001'')), (js ''Tickets'', JStr (js ''T1'')),
         (js ''Date'', JStr []), (js ''Balance Due'', JStr (js ''10''))]]
       [oiRow ''T1''] emptyUi)) = []"
proof -
  have v: "\<not> approvedValid
       [[(js ''Invoice#'', JStr (js ''1001'')), (js ''Tickets'', JStr (js ''T1'')),
         (js ''Date'', JStr []), (js ''Balance Due'', JStr (js ''10''))]]
       [oiRow ''T1'' :: nat option row]"
    by (simp add: approvedValid_def run_defs js_def)
  have e: "fst (runApproved decimalOps
       [[(js ''Invoice#'', JStr (js ''1001'')), (js ''Tickets'', JStr (js ''T1'')),
         (js ''Date'', JStr []), (js ''Balance Due'', JStr (js ''10''))]]
       [oiRow ''T1''] emptyUi) = Some (Error (js ''AXON missing column: Name''))"
    by (simp add: runApproved_def run_defs js_def)
  from approved_validation_error [OF v, of decimalOps emptyUi] have
    "downloads (snd (runApproved decimalOps
       [[(js ''Invoice#'', JStr (js ''1001'')), (js ''Tickets'', JStr (js ''T1'')),
         (js ''Date'', JStr []), (js ''Balance Due'', JStr (js ''10''))]]
       [oiRow ''T1''] emptyUi)) = downloads emptyUi"
    by blast
  then have "downloads (snd (runApproved decimalOps
       [[(js ''Invoice#'', JStr (js ''1001'')), (js ''Tickets'', JStr (js ''T1'')),
         (js ''Date'', JStr []), (js ''Balance Due'', JStr (js ''10''))]]
       [oiRow ''T1''] emptyUi)) = []"
    by (simp add: emptyUi_def)
  with v e show ?thesis by (intro conjI)
qed

text \<open>
  C10. Tickets are counted once per occurrence. Whatever comma-free pieces \<open>ps\<close> the
  \<open>Tickets\<close> cell of a row holds between its commas, \<open>total\<close> is the length of the list of
  nonempty normalized tokens, duplicates included, and \<open>matched\<close> is the length of the
  sublist of those that are in the Open-Invoice Ticket Set: each distinct ticket counts as
  many times as it occurs. A row whose tokens are all open, as when they are all copies of
  one open ticket, is \<open>Ready to Flip\<close>; the cell \<open>T1,T1\<close> with \<open>T1\<close> open has \<open>total = 2\<close>
  and \<open>matched = 2\<close>.
\<close>

theorem duplicate_tickets_counted:
  assumes "ps \<noteq> []" "\<forall>p\<in>set ps. COMMA \<notin> set p"
    and "getv r (js ''Tickets'') \<noteq> JNull" "getv r (js ''Tickets'') \<noteq> JUndefined"
    and "toString ops (getv r (js ''Tickets'')) = joinComma ps"
  shows "let tokens = filter (\<lambda>p. p \<noteq> []) (map trim ps);
             ks = filter (\<lambda>k. k \<noteq> []) (map (\<lambda>t. normalizeTicket ops (JStr t)) tokens);
             oi = oiSet ops oiRows
         in approvedCounts ops oi (getv r (js ''Tickets'')) =
              (length ks, length (filter (\<lambda>k. k \<in> oi) ks)) \<and>
            length ks = (\<Sum>k\<in>set ks. count_list ks k) \<and>
            length (filter (\<lambda>k. k \<in> oi) ks) = (\<Sum>k\<in>set ks \<inter> oi. count_list ks k) \<and>
            (ks \<noteq> [] \<and> set ks \<subseteq> oi \<longrightarrow>
               Status (approvedRow ops oi r) = js ''Ready to Flip'')"
proof -
  define tokens where "tokens = filter (\<lambda>p. p \<noteq> []) (map trim ps)"
  define ks where
    "ks = filter (\<lambda>k. k \<noteq> []) (map (\<lambda>t. normalizeTicket ops (JStr t)) tokens)"
  define oi where "oi = oiSet ops oiRows"
  have "splitAxonTickets ops (getv r (js ''Tickets'')) =
      filter (\<lambda>p. p \<noteq> []) (map trim (split (toString ops (getv r (js ''Tickets''))) COMMA))"
    using assms(3,4) by (rule splitAxonTickets_pieces)
  also have "split (toString ops (getv r (js ''Tickets''))) COMMA = ps"
    unfolding assms(5) using assms(1,2) by (rule split_joinComma)
  finally have t: "splitAxonTickets ops (getv r (js ''Tickets'')) = tokens"
    by (simp only: tokens_def)
  have c: "approvedCounts ops oi (getv r (js ''Tickets'')) =
      (length ks, length (filter (\<lambda>k. k \<in> oi) ks))"
    unfolding approvedCounts_def t Let_def ks_def ..
  have s: "ks \<noteq> [] \<and> set ks \<subseteq> oi \<longrightarrow> Status (approvedRow ops oi r) = js ''Ready to Flip''"
  proof
    assume h: "ks \<noteq> [] \<and> set ks \<subseteq> oi"
    then have "filter (\<lambda>k. k \<in> oi) ks = ks" by (intro filter_True) auto
    with h c show "Status (approvedRow ops oi r) = js ''Ready to Flip''"
      by (intro approvedRow_Ready) simp_all
  qed
  from c s length_as_counts [of ks] length_filter_as_counts [of oi ks] show ?thesis
    unfolding Let_def tokens_def [symmetric] ks_def [symmetric] oi_def [symmetric]
    by (intro conjI)
qed

theorem duplicate_tickets_counted_witness:
  "approvedCounts decimalOps (oiSet decimalOps [oiRow ''T1''])
     (getv (axonRow ''1001'' ''T1,T1'' ''Acme'') (js ''Tickets'')) = (2, 2) \<and>
   Status (approvedRow decimalOps (oiSet decimalOps [oiRow ''T1''])
     (axonRow ''1001'' ''T1,T1'' ''Acme'')) = js ''Ready to Flip'' \<and>
   approvedCounts decimalOps (oiSet decimalOps [oiRow ''T1''])
     (getv (axonRow ''1002'' ''T1, T1 ,,T2,T1'' ''Acme'') (js ''Tickets'')) = (4, 3)"
proof -
  have o: "oiSet decimalOps [oiRow ''T1''] = {js ''T1''}"
    by (simp add: oiSet_def run_defs str_defs)
  have a: "[js ''T1'', js ''T1''] \<noteq> []" "\<forall>p\<in>set [js ''T1'', js ''T1'']. COMMA \<notin> set p"
    "getv (axonRow ''1001'' ''T1,T1'' ''Acme'') (js ''Tickets'') \<noteq> JNull"
    "getv (axonRow ''1001'' ''T1,T1'' ''Acme'') (js ''Tickets'') \<noteq> JUndefined"
    "toString decimalOps (getv (axonRow ''1001'' ''T1,T1'' ''Acme'') (js ''Tickets'')) =
       joinComma [js ''T1'', js ''T1'']"
    by (simp_all add: run_defs js_def)
  have k: "filter (\<lambda>k. k \<noteq> []) (map (\<lambda>t. normalizeTicket decimalOps (JStr t))
      (filter (\<lambda>p. p \<noteq> []) (map trim [js ''T1'', js ''T1'']))) = [js ''T1'', js ''T1'']"
    by (simp add: str_defs)
  from duplicate_tickets_counted [OF a, of "[oiRow ''T1'']"] have
    "approvedCounts decimalOps (oiSet decimalOps [oiRow ''T1''])
       (getv (axonRow ''1001'' ''T1,T1'' ''Acme'') (js ''Tickets'')) = (2, 2) \<and>
     Status (approvedRow decimalOps (oiSet decimalOps [oiRow ''T1''])
       (axonRow ''1001'' ''T1,T1'' ''Acme'')) = js ''Ready to Flip''"
    unfolding Let_def k o by simp
  moreover
  have b: "[js ''T1'', js '' T1 '', js '''', js ''T2'', js ''T1''] \<noteq> []"
    "\<forall>p\<in>set [js ''T1'', js '' T1 '', js '''', js ''T2'', js ''T1'']. COMMA \<notin> set p"
    "getv (axonRow ''1002'' ''T1, T1 ,,T2,T1'' ''Acme'') (js ''Tickets'') \<noteq> JNull"
    "getv (axonRow ''1002'' ''T1, T1 ,,T2,T1'' ''Acme'') (js ''Tickets'') \<noteq> JUndefined"
    "toString decimalOps (getv (axonRow ''1002'' ''T1, T1 ,,T2,T1'' ''Acme'') (js ''Tickets'')) =
       joinComma [js ''T1'', js '' T1 '', js '''', js ''T2'', js ''T1'']"
    by (simp_all add: run_defs js_def)
  have l: "filter (\<lambda>k. k \<noteq> []) (map (\<lambda>t. normalizeTicket decimalOps (JStr t))
      (filter (\<lambda>p. p \<noteq> [])
         (map trim [js ''T1'', js '' T1 '', js '''', js ''T2'', js ''T1'']))) =
      [js ''T1'', js ''T1'', js ''T2'', js ''T1'']"
    by (simp add: str_defs)
  from duplicate_tickets_counted [OF b, of "[oiRow ''T1'']"] have
    "approvedCounts decimalOps (oiSet decimalOps [oiRow ''T1''])
     (getv (axonRow ''1002'' ''T1, T1 ,,T2,T1'' ''Acme'') (js ''Tickets'')) = (4, 3)"
    unfolding Let_def l o by (simp add: js_def)
  ultimately show ?thesis by simp
qed

section \<open>The remittance tool\<close>

text \<open>
  C3, as stated: the customer of a remittance row is the mapped name whenever its
  normalized reference is in the Invoice-to-Customer map, and \<open>NOT FOUND IN AXON\<close> only
  when it is absent. It fails for an AXON row with a blank \<open>Name\<close>: invoice \<open>100\<close> is in
  the map, with the empty name, and the remittance row that refers to it is reported as
  \<open>NOT FOUND IN AXON\<close>.
\<close>

theorem remit_blank_name_not_found:
  "invToCustomer decimalOps [axonRow ''100'' ''T1'' '''']
     (normalizeInvoice decimalOps (JStr (js ''100''))) = Some [] \<and>
   runRemit decimalOps [axonRow ''100'' ''T1'' ''''] [remRow ''100'' ''5''] emptyUi =
     (None,
      \<lparr>logText = msgDone,
       downloads =
         [([(js ''Customer Breakdown'',
             RemitRows
               [\<lparr>Reference = JStr (js ''100''), Net_Amount = JNum (Some 5),
                 Customer = js ''NOT FOUND IN AXON'',
                 PioneerNaturalResources = JStr [], XTO_column = JStr []\<rparr>,
                \<lparr>Reference = JStr [], Net_Amount = JStr [], Customer = js ''TOTAL'',
                 PioneerNaturalResources = JNum (Some 0), XTO_column = JNum (Some 0)\<rparr>]),
            (js ''Not Found in AXON'',
             RemitRows
               [\<lparr>Reference = JStr (js ''100''), Net_Amount = JNum (Some 5),
                 Customer = js ''NOT FOUND IN AXON'',
                 PioneerNaturalResources = JStr [], XTO_column = JStr []\<rparr>])],
           js ''remittance_breakdown.xlsx'')]\<rparr>)"
  by (simp add: runRemit_def run_defs str_defs remit_defs Let_def customerOf_def netAmount_def
      truthyNum_def decimalOps_def decOfString_def NOT_FOUND_def PIONEER_def XTO_def)

text \<open>
  C3, amended: the Invoice-to-Customer map sends each nonempty normalized AXON \<open>Invoice#\<close>
  to the trimmed \<open>Name\<close> string of the last AXON row with that normalized \<open>Invoice#\<close>, and
  has no entry for the empty id; for every remittance row of a run that passes validation,
  the output \<open>Customer\<close> is the mapped name when the normalized reference is in the map with
  a nonempty name, and \<open>NOT FOUND IN AXON\<close> when the reference is absent or its mapped name
  is empty.
\<close>

theorem remit_customer:
  assumes "remitValid axonRows remRows"
  shows "(\<forall>k. invToCustomer ops axonRows k =
       (if k = [] then None
        else case filter (\<lambda>r. normalizeInvoice ops (getv r (js ''Invoice#'')) = k) axonRows of
               [] \<Rightarrow> None
             | r # rs \<Rightarrow> Some (trim (toString ops (getv (last (r # rs)) (js ''Name'')))))) \<and>
    (\<exists>rows totalRow notFound.
       runRemit ops axonRows remRows st =
         (None, st\<lparr>logText := msgDone, downloads := downloads st @
            [([(js ''Customer Breakdown'', RemitRows (rows @ [totalRow])),
               (js ''Not Found in AXON'', RemitRows notFound)],
              js ''remittance_breakdown.xlsx'')]\<rparr>) \<and>
       length rows = length remRows \<and>
       (\<forall>i<length remRows.
          Customer (rows ! i) =
            (case invToCustomer ops axonRows
                    (normalizeInvoice ops
                       (if hasKey (js ''Reference'') (remRows ! i)
                        then getv (remRows ! i) (js ''Reference'')
                        else getv (remRows ! i) (js ''Reference/Text''))) of
               None \<Rightarrow> js ''NOT FOUND IN AXON''
             | Some name \<Rightarrow> if name = [] then js ''NOT FOUND IN AXON'' else name)))"
proof (intro conjI allI)
  fix k
  show "invToCustomer ops axonRows k =
       (if k = [] then None
        else case filter (\<lambda>r. normalizeInvoice ops (getv r (js ''Invoice#'')) = k) axonRows of
               [] \<Rightarrow> None
             | r # rs \<Rightarrow> Some (trim (toString ops (getv (last (r # rs)) (js ''Name'')))))"
    by (rule invToCustomer_last)
next
  define rows where "rows = map (remitRow ops (invToCustomer ops axonRows)) remRows"
  have "\<forall>i<length remRows.
          Customer (rows ! i) =
            (case invToCustomer ops axonRows
                    (normalizeInvoice ops
                       (if hasKey (js ''Reference'') (remRows ! i)
                        then getv (remRows ! i) (js ''Reference'')
                        else getv (remRows ! i) (js ''Reference/Text''))) of
               None \<Rightarrow> js ''NOT FOUND IN AXON''
             | Some name \<Rightarrow> if name = [] then js ''NOT FOUND IN AXON'' else name)"
  proof (intro allI impI)
    fix i
    assume "i < length remRows"
    then have "rows ! i = remitRow ops (invToCustomer ops axonRows) (remRows ! i)"
      by (simp add: rows_def)
    then show "Customer (rows ! i) =
            (case invToCustomer ops axonRows
                    (normalizeInvoice ops
                       (if hasKey (js ''Reference'') (remRows ! i)
                        then getv (remRows ! i) (js ''Reference'')
                        else getv (remRows ! i) (js ''Reference/Text''))) of
               None \<Rightarrow> js ''NOT FOUND IN AXON''
             | Some name \<Rightarrow> if name = [] then js ''NOT FOUND IN AXON'' else name)"
      by (simp only: remitRow_Customer)
  qed
  moreover have "length rows = length remRows" by (simp add: rows_def)
  moreover note runRemit_valid [OF assms, of ops st, folded rows_def]
  ultimately show "\<exists>rows totalRow notFound.
       runRemit ops axonRows remRows st =
         (None, st\<lparr>logText := msgDone, downloads := downloads st @
            [([(js ''Customer Breakdown'', RemitRows (rows @ [totalRow])),
               (js ''Not Found in AXON'', RemitRows notFound)],
              js ''remittance_breakdown.xlsx'')]\<rparr>) \<and>
       length rows = length remRows \<and>
       (\<forall>i<length remRows.
          Customer (rows ! i) =
            (case invToCustomer ops axonRows
                    (normalizeInvoice ops
                       (if hasKey (js ''Reference'') (remRows ! i)
                        then getv (remRows ! i) (js ''Reference'')
                        else getv (remRows ! i) (js ''Reference/Text''))) of
               None \<Rightarrow> js ''NOT FOUND IN AXON''
             | Some name \<Rightarrow> if name = [] then js ''NOT FOUND IN AXON'' else name))"
    by blast
qed

theorem remit_customer_witness:
  "remitValid
     [axonRow ''100.0'' ''T1'' ''Acme'', axonRow ''100'' ''T2'' '' Pioneer Natural Resources '']
     [remRow ''100'' ''1,000'', remRow ''999'' ''3''] \<and>
   (\<exists>rows totalRow notFound.
      runRemit decimalOps
        [axonRow ''100.0'' ''T1'' ''Acme'', axonRow ''100'' ''T2'' '' Pioneer Natural Resources '']
        [remRow ''100'' ''1,000'', remRow ''999'' ''3''] emptyUi =
        (None, emptyUi\<lparr>logText := msgDone, downloads := downloads emptyUi @
            [([(js ''Customer Breakdown'', RemitRows (rows @ [totalRow])),
               (js ''Not Found in AXON'', RemitRows notFound)],
              js ''remittance_breakdown.xlsx'')]\<rparr>) \<and>
      Customer (rows ! 0) = js ''Pioneer Natural Resources'' \<and>
      Customer (rows ! 1) = js ''NOT FOUND IN AXON'')"
proof -
  have v: "remitValid
     [axonRow ''100.0'' ''T1'' ''Acme'', axonRow ''100'' ''T2'' '' Pioneer Natural Resources '']
     [remRow ''100'' ''1,000'', remRow ''999'' ''3'']"
    by (simp add: remitValid_def run_defs js_def)
  from remit_customer [OF v, of decimalOps emptyUi] obtain rows totalRow notFound where
    r: "runRemit decimalOps
        [axonRow ''100.0'' ''T1'' ''Acme'', axonRow ''100'' ''T2'' '' Pioneer Natural Resources '']
        [remRow ''100'' ''1,000'', remRow ''999'' ''3''] emptyUi =
        (None, emptyUi\<lparr>logText := msgDone, downloads := downloads emptyUi @
            [([(js ''Customer Breakdown'', RemitRows (rows @ [totalRow])),
               (js ''Not Found in AXON'', RemitRows notFound)],
              js ''remittance_breakdown.xlsx'')]\<rparr>)"
    and c: "\<forall>i<length [remRow ''100'' ''1,000'', remRow ''999'' ''3''].
          Customer (rows ! i) =
            (case invToCustomer decimalOps
                [axonRow ''100.0'' ''T1'' ''Acme'',
                 axonRow ''100'' ''T2'' '' Pioneer Natural Resources '']
                    (normalizeInvoice decimalOps
                       (if hasKey (js ''Reference'') ([remRow ''100'' ''1,000'', remRow ''999'' ''3''] ! i)
                        then getv ([remRow ''100'' ''1,000'', remRow ''999'' ''3''] ! i) (js ''Reference'')
                        else getv ([remRow ''100'' ''1,000'', remRow ''999'' ''3''] ! i)
                               (js ''Reference/Text''))) of
               None \<Rightarrow> js ''NOT FOUND IN AXON''
             | Some name \<Rightarrow> if name = [] then js ''NOT FOUND IN AXON'' else name)"
    by blast
  from c have "Customer (rows ! 0) = js ''Pioneer Natural Resources''"
    by (simp add: run_defs str_defs remit_defs)
  moreover from c have "Customer (rows ! 1) = js ''NOT FOUND IN AXON''"
    by (simp add: run_defs str_defs remit_defs)
  ultimately show ?thesis using v r by blast
qed

text \<open>
  C4. On tables that pass validation, the last row of the \<open>Customer Breakdown\<close> sheet has
  \<open>Customer = TOTAL\<close> and empty \<open>Reference\<close> and \<open>Net Amount\<close>; every bucket cell of the
  rows before it is a number or the empty string; and each of its two bucket values is the
  sum, in row order, of the numbers in that column of the rows before it. Counting the
  empty cells as zero gives the same sum whenever adding zero changes no number.
\<close>

theorem remit_total_row:
  assumes "remitValid axonRows remRows"
  shows "\<exists>rows pioneerTotal xtoTotal notFound.
    runRemit ops axonRows remRows st =
      (None, st\<lparr>logText := msgDone, downloads := downloads st @
         [([(js ''Customer Breakdown'',
             RemitRows (rows @
               [\<lparr>Reference = JStr [], Net_Amount = JStr [], Customer = js ''TOTAL'',
                 PioneerNaturalResources = JNum pioneerTotal,
                 XTO_column = JNum xtoTotal\<rparr>])),
            (js ''Not Found in AXON'', RemitRows notFound)],
           js ''remittance_breakdown.xlsx'')]\<rparr>) \<and>
    length rows = length remRows \<and>
    (\<forall>r\<in>set rows.
       ((\<exists>a. PioneerNaturalResources r = JNum a) \<or> PioneerNaturalResources r = JStr []) \<and>
       ((\<exists>a. XTO_column r = JNum a) \<or> XTO_column r = JStr [])) \<and>
    pioneerTotal =
      foldl (num_add ops) (num_zero ops) (numbersOf (map PioneerNaturalResources rows)) \<and>
    xtoTotal = foldl (num_add ops) (num_zero ops) (numbersOf (map XTO_column rows)) \<and>
    ((\<forall>a. num_add ops a (num_zero ops) = a) \<longrightarrow>
       pioneerTotal = columnSum ops (map PioneerNaturalResources rows) \<and>
       xtoTotal = columnSum ops (map XTO_column rows))"
proof -
  define rows where "rows = map (remitRow ops (invToCustomer ops axonRows)) remRows"
  have l: "length rows = length remRows" by (simp add: rows_def)
  have b: "\<forall>r\<in>set rows.
       ((\<exists>a. PioneerNaturalResources r = JNum a) \<or> PioneerNaturalResources r = JStr []) \<and>
       ((\<exists>a. XTO_column r = JNum a) \<or> XTO_column r = JStr [])"
    using remitRow_buckets by (auto simp: rows_def)
  have z: "(\<forall>a. num_add ops a (num_zero ops) = a) \<longrightarrow>
       foldl (num_add ops) (num_zero ops) (numbersOf (map PioneerNaturalResources rows)) =
         columnSum ops (map PioneerNaturalResources rows) \<and>
       foldl (num_add ops) (num_zero ops) (numbersOf (map XTO_column rows)) =
         columnSum ops (map XTO_column rows)"
    unfolding columnSum_def by (intro impI conjI) (rule foldl_cellOrZero [symmetric], assumption)+
  note r = runRemit_valid [OF assms, of ops st, folded rows_def]
  show ?thesis
    by (rule exI [of _ rows],
        rule exI [of _ "foldl (num_add ops) (num_zero ops)
          (numbersOf (map PioneerNaturalResources rows))"],
        rule exI [of _ "foldl (num_add ops) (num_zero ops) (numbersOf (map XTO_column rows))"],
        rule exI, intro conjI, rule r, rule l, rule b, rule refl, rule refl, rule z)
qed

theorem remit_total_row_witness:
  "remitValid
     [axonRow ''100.0'' ''T1'' ''Pioneer Natural Resources'', axonRow ''200'' ''T2'' ''XTO Energy'']
     [remRow ''100'' ''1,000'', remRow ''200'' ''5'', remRow ''100'' ''7'', remRow ''999'' ''3''] \<and>
   (\<forall>a. num_add decimalOps a (num_zero decimalOps) = a) \<and>
   (\<exists>rows notFound.
      runRemit decimalOps
        [axonRow ''100.0'' ''T1'' ''Pioneer Natural Resources'', axonRow ''200'' ''T2'' ''XTO Energy'']
        [remRow ''100'' ''1,000'', remRow ''200'' ''5'', remRow ''100'' ''7'', remRow ''999'' ''3'']
        emptyUi =
        (None, emptyUi\<lparr>logText := msgDone, downloads := downloads emptyUi @
           [([(js ''Customer Breakdown'',
               RemitRows (rows @
                 [\<lparr>Reference = JStr [], Net_Amount = JStr [], Customer = js ''TOTAL'',
                   PioneerNaturalResources = JNum (Some 1007),
                   XTO_column = JNum (Some 5)\<rparr>])),
              (js ''Not Found in AXON'', RemitRows notFound)],
             js ''remittance_breakdown.xlsx'')]\<rparr>) \<and>
      columnSum decimalOps (map PioneerNaturalResources rows) = Some 1007 \<and>
      columnSum decimalOps (map XTO_column rows) = Some 5)"
proof -
  have v: "remitValid
     [axonRow ''100.0'' ''T1'' ''Pioneer Natural Resources'', axonRow ''200'' ''T2'' ''XTO Energy'']
     [remRow ''100'' ''1,000'', remRow ''200'' ''5'', remRow ''100'' ''7'', remRow ''999'' ''3'']"
    by (simp add: remitValid_def run_defs js_def)
  have z: "\<forall>a. num_add decimalOps a (num_zero decimalOps) = a"
    by (simp add: decimalOps_def split: option.split)
  from remit_total_row [OF v, of decimalOps emptyUi] z
  obtain rows pioneerTotal xtoTotal notFound where
    r: "runRemit decimalOps
        [axonRow ''100.0'' ''T1'' ''Pioneer Natural Resources'', axonRow ''200'' ''T2'' ''XTO Energy'']
        [remRow ''100'' ''1,000'', remRow ''200'' ''5'', remRow ''100'' ''7'', remRow ''999'' ''3'']
        emptyUi =
        (None, emptyUi\<lparr>logText := msgDone, downloads := downloads emptyUi @
           [([(js ''Customer Breakdown'',
               RemitRows (rows @
                 [\<lparr>Reference = JStr [], Net_Amount = JStr [], Customer = js ''TOTAL'',
                   PioneerNaturalResources = JNum pioneerTotal,
                   XTO_column = JNum xtoTotal\<rparr>])),
              (js ''Not Found in AXON'', RemitRows notFound)],
             js ''remittance_breakdown.xlsx'')]\<rparr>)"
    and p: "pioneerTotal = columnSum decimalOps (map PioneerNaturalResources rows)"
    and x: "xtoTotal = columnSum decimalOps (map XTO_column rows)"
    by blast
  have "PioneerNaturalResources (last (case snd (hd (fst (hd (downloads (snd (runRemit decimalOps
        [axonRow ''100.0'' ''T1'' ''Pioneer Natural Resources'', axonRow ''200'' ''T2'' ''XTO Energy'']
        [remRow ''100'' ''1,000'', remRow ''200'' ''5'', remRow ''100'' ''7'', remRow ''999'' ''3'']
        emptyUi)))))) of RemitRows rs \<Rightarrow> rs)) = JNum (Some 1007) \<and>
      XTO_column (last (case snd (hd (fst (hd (downloads (snd (runRemit decimalOps
        [axonRow ''100.0'' ''T1'' ''Pioneer Natural Resources'', axonRow ''200'' ''T2'' ''XTO Energy'']
        [remRow ''100'' ''1,000'', remRow ''200'' ''5'', remRow ''100'' ''7'', remRow ''999'' ''3'']
        emptyUi)))))) of RemitRows rs \<Rightarrow> rs)) = JNum (Some 5)"
    by (simp add: runRemit_def run_defs str_defs remit_defs num_defs Let_def customerOf_def
        NOT_FOUND_def PIONEER_def XTO_def)
  then have pt: "pioneerTotal = Some 1007" and xt: "xtoTotal = Some 5"
    unfolding r by (simp_all add: emptyUi_def)
  have "\<exists>rows notFound.
      runRemit decimalOps
        [axonRow ''100.0'' ''T1'' ''Pioneer Natural Resources'', axonRow ''200'' ''T2'' ''XTO Energy'']
        [remRow ''100'' ''1,000'', remRow ''200'' ''5'', remRow ''100'' ''7'', remRow ''999'' ''3'']
        emptyUi =
        (None, emptyUi\<lparr>logText := msgDone, downloads := downloads emptyUi @
           [([(js ''Customer Breakdown'',
               RemitRows (rows @
                 [\<lparr>Reference = JStr [], Net_Amount = JStr [], Customer = js ''TOTAL'',
                   PioneerNaturalResources = JNum (Some 1007),
                   XTO_column = JNum (Some 5)\<rparr>])),
              (js ''Not Found in AXON'', RemitRows notFound)],
             js ''remittance_breakdown.xlsx'')]\<rparr>) \<and>
      columnSum decimalOps (map PioneerNaturalResources rows) = Some 1007 \<and>
      columnSum decimalOps (map XTO_column rows) = Some 5"
    by (rule exI [of _ rows], rule exI [of _ notFound], intro conjI,
        rule r [unfolded pt xt], rule p [unfolded pt, symmetric], rule x [unfolded xt, symmetric])
  with v z show ?thesis by (rule conjI [OF _ conjI])
qed

text \<open>
  C8. On tables that pass validation the run completes without an error whatever the
  \<open>Net Amount\<close> cells hold, and the \<open>Net Amount\<close> of every output row is the number that
  the string form of the cell, with its commas removed, converts to, or zero when that
  conversion gives NaN (or a zero).
\<close>

theorem remit_net_amount:
  assumes "remitValid axonRows remRows"
  shows "\<exists>rows totalRow notFound.
    runRemit ops axonRows remRows st =
      (None, st\<lparr>logText := msgDone, downloads := downloads st @
         [([(js ''Customer Breakdown'', RemitRows (rows @ [totalRow])),
            (js ''Not Found in AXON'', RemitRows notFound)],
           js ''remittance_breakdown.xlsx'')]\<rparr>) \<and>
    length rows = length remRows \<and>
    (\<forall>i<length remRows.
       Net_Amount (rows ! i) =
         (let n = num_ofString ops
                    (filter (\<lambda>c. c \<noteq> COMMA)
                       (toString ops (getv (remRows ! i) (js ''Net Amount''))))
          in JNum (if num_isNaN ops n \<or> num_isZero ops n then num_zero ops else n)))"
proof -
  define rows where "rows = map (remitRow ops (invToCustomer ops axonRows)) remRows"
  have l: "length rows = length remRows" by (simp add: rows_def)
  have n: "\<forall>i<length remRows.
       Net_Amount (rows ! i) =
         (let n = num_ofString ops
                    (filter (\<lambda>c. c \<noteq> COMMA)
                       (toString ops (getv (remRows ! i) (js ''Net Amount''))))
          in JNum (if num_isNaN ops n \<or> num_isZero ops n then num_zero ops else n))"
    by (simp add: rows_def remitRow_def netAmount_def truthyNum_def replaceAll_empty Let_def
        del: normalizeInvoice.simps)
  note r = runRemit_valid [OF assms, of ops st, folded rows_def]
  from r l n show ?thesis by blast
qed

theorem remit_net_amount_witness:
  "remitValid [axonRow ''100'' ''T1'' ''Acme''] [remRow ''100'' ''1,000'', remRow ''200'' ''n/a''] \<and>
   (\<exists>rows totalRow notFound.
      runRemit decimalOps [axonRow ''100'' ''T1'' ''Acme'']
        [remRow ''100'' ''1,000'', remRow ''200'' ''n/a''] emptyUi =
        (None, emptyUi\<lparr>logText := msgDone, downloads := downloads emptyUi @
            [([(js ''Customer Breakdown'', RemitRows (rows @ [totalRow])),
               (js ''Not Found in AXON'', RemitRows notFound)],
              js ''remittance_breakdown.xlsx'')]\<rparr>) \<and>
      Net_Amount (rows ! 0) = JNum (Some 1000) \<and>
      Net_Amount (rows ! 1) = JNum (Some 0))"
proof -
  have v: "remitValid [axonRow ''100'' ''T1'' ''Acme'']
      [remRow ''100'' ''1,000'', remRow ''200'' ''n/a'']"
    by (simp add: remitValid_def run_defs js_def)
  from remit_net_amount [OF v, of decimalOps emptyUi] obtain rows totalRow notFound where
    r: "runRemit decimalOps [axonRow ''100'' ''T1'' ''Acme'']
        [remRow ''100'' ''1,000'', remRow ''200'' ''n/a''] emptyUi =
        (None, emptyUi\<lparr>logText := msgDone, downloads := downloads emptyUi @
            [([(js ''Customer Breakdown'', RemitRows (rows @ [totalRow])),
               (js ''Not Found in AXON'', RemitRows notFound)],
              js ''remittance_breakdown.xlsx'')]\<rparr>)"
    and n: "\<forall>i<length [remRow ''100'' ''1,000'', remRow ''200'' ''n/a''].
       Net_Amount (rows ! i) =
         (let n = num_ofString decimalOps
                    (filter (\<lambda>c. c \<noteq> COMMA)
                       (toString decimalOps
                          (getv ([remRow ''100'' ''1,000'', remRow ''200'' ''n/a''] ! i)
                             (js ''Net Amount''))))
          in JNum (if num_isNaN decimalOps n \<or> num_isZero decimalOps n
                   then num_zero decimalOps else n))"
    by blast
  from n have "Net_Amount (rows ! 0) = JNum (Some 1000)"
    by (simp add: run_defs str_defs num_defs)
  moreover from n have "Net_Amount (rows ! 1) = JNum (Some 0)"
    by (simp add: run_defs str_defs num_defs)
  ultimately show ?thesis using v r by blast
qed

end
